theory Spec2Isabelle
  imports Main "HOL-Library.Sublist"
begin

section \<open>JavaScript strings\<close>

text \<open>
  A JavaScript string is modelled as a HOL \<open>string\<close>: a sequence of characters with
  code points 0..255. Node.js decodes the bytes of a header line as Latin-1, so for
  header names and values the model is exact; a response body is covered as far as
  it stays inside Latin-1.
\<close>

definition toLowerCase_char :: "char \<Rightarrow> char" where
  \<comment> \<open>Unicode lower-casing on Latin-1: A-Z and the accented capitals
      U+00C0..U+00DE, the multiplication sign U+00D7 apart.\<close>
  "toLowerCase_char c =
     (let n = (of_char c :: nat)
      in if (65 \<le> n \<and> n \<le> 90) \<or> (192 \<le> n \<and> n \<le> 222 \<and> n \<noteq> 215)
         then char_of (n + 32) else c)"

definition toLowerCase :: "string \<Rightarrow> string" where
  "toLowerCase s = map toLowerCase_char s"

definition isWhiteSpace :: "char \<Rightarrow> bool" where
  \<comment> \<open>WhiteSpace and LineTerminator of ECMAScript inside Latin-1:
      TAB, LF, VT, FF, CR, SP and NBSP.\<close>
  "isWhiteSpace c =
     (let n = (of_char c :: nat) in (9 \<le> n \<and> n \<le> 13) \<or> n = 32 \<or> n = 160)"

definition trim :: "string \<Rightarrow> string" where
  "trim s = rev (dropWhile isWhiteSpace (rev (dropWhile isWhiteSpace s)))"

fun startsWith :: "string \<Rightarrow> string \<Rightarrow> bool" where
  \<comment> \<open>\<open>s.startsWith(p)\<close>\<close>
  "startsWith s [] = True"
| "startsWith [] (p # ps) = False"
| "startsWith (c # cs) (p # ps) = (c = p \<and> startsWith cs ps)"

fun includes_str :: "string \<Rightarrow> string \<Rightarrow> bool" where
  \<comment> \<open>\<open>s.includes(t)\<close>: \<open>t\<close> occurs at some position of \<open>s\<close>\<close>
  "includes_str [] t = (t = [])"
| "includes_str (c # cs) t = (startsWith (c # cs) t \<or> includes_str cs t)"

function split_from :: "string \<Rightarrow> string \<Rightarrow> string \<Rightarrow> string list" where
  \<comment> \<open>the scan of \<open>String.prototype.split\<close> for a non-empty separator: \<open>cur\<close> is the
      piece being read, \<open>s\<close> the text still to scan\<close>
  "split_from sep cur s =
     (if s = [] then [cur]
      else if sep \<noteq> [] \<and> startsWith s sep
           then cur # split_from sep [] (drop (length sep) s)
           else split_from sep (cur @ [hd s]) (tl s))"
  by pat_completeness auto
termination
  by (relation "measure (\<lambda>(sep, cur, s). length s)") auto

declare split_from.simps [simp del]

definition js_split :: "string \<Rightarrow> string \<Rightarrow> string list" where
  \<comment> \<open>\<open>s.split(sep)\<close>; with the empty separator JavaScript cuts between all
      characters\<close>
  "js_split sep s = (if sep = [] then map (\<lambda>c. [c]) s else split_from sep [] s)"

fun js_join :: "string \<Rightarrow> string list \<Rightarrow> string" where
  \<comment> \<open>\<open>pieces.join(sep)\<close>\<close>
  "js_join sep [] = []"
| "js_join sep [p] = p"
| "js_join sep (p # q # ps) = p @ sep @ js_join sep (q # ps)"

section \<open>Response headers and the protocol negotiator\<close>

text \<open>
  The header object of a response (\<open>response.headers\<close> of Node.js): every name is
  lower-cased and owns one string, except \<open>set-cookie\<close>, which owns the list of all
  its lines. \<open>single\<close> holds the string-valued properties in their order,
  \<open>set_cookie\<close> the \<open>set-cookie\<close> property when the object has it.
\<close>

record resp_headers =
  single :: "(string \<times> string) list"
  set_cookie :: "string list option"

definition getOwnProperty :: "resp_headers \<Rightarrow> string \<Rightarrow> string option" where
  \<comment> \<open>\<open>Object.getOwnPropertyDescriptor(headers, name)\<close>, \<open>None\<close> for \<open>undefined\<close>\<close>
  "getOwnProperty h name = map_of (single h) name"

fun upgradeTypes_loop :: "string list \<Rightarrow> bool" where
  \<comment> \<open>the \<open>for\<close> loop of \<open>isHTTP2Upgrade\<close> over the pieces still to visit\<close>
  "upgradeTypes_loop [] = False"
| "upgradeTypes_loop (t # ts) =
     (let currentType = toLowerCase (trim t)
      in if currentType = ''h2'' \<or> currentType = ''h2c'' then True
         else upgradeTypes_loop ts)"

definition isHTTP2Upgrade :: "resp_headers \<Rightarrow> bool" where
  "isHTTP2Upgrade headers =
     (case (getOwnProperty headers ''connection'', getOwnProperty headers ''upgrade'') of
        (None, _) \<Rightarrow> False
      | (_, None) \<Rightarrow> False
      | (Some connection, Some upgrade) \<Rightarrow>
          if upgrade = [] then False
          else if connection = [] then False
          else if \<not> includes_str (toLowerCase connection) ''upgrade'' then False
          else upgradeTypes_loop (js_split '','' upgrade))"

text \<open>The negotiator as the specification words it.\<close>

definition upgrade_signalled :: "resp_headers \<Rightarrow> bool" where
  "upgrade_signalled headers =
     (\<exists>connection upgrade.
        map_of (single headers) ''connection'' = Some connection \<and>
        map_of (single headers) ''upgrade'' = Some upgrade \<and>
        connection \<noteq> [] \<and> upgrade \<noteq> [] \<and>
        sublist ''upgrade'' (toLowerCase connection) \<and>
        (\<exists>t \<in> set (js_split '','' upgrade).
           toLowerCase (trim t) = ''h2'' \<or> toLowerCase (trim t) = ''h2c''))"

section \<open>JavaScript values, errors and objects\<close>

datatype jserror =
  Error string | TypeError string | SyntaxError string | ReferenceError string

fun error_name :: "jserror \<Rightarrow> string" where
  "error_name (Error m) = ''Error''"
| "error_name (TypeError m) = ''TypeError''"
| "error_name (SyntaxError m) = ''SyntaxError''"
| "error_name (ReferenceError m) = ''ReferenceError''"

fun error_message :: "jserror \<Rightarrow> string" where
  "error_message (Error m) = m"
| "error_message (TypeError m) = m"
| "error_message (SyntaxError m) = m"
| "error_message (ReferenceError m) = m"

definition error_toString :: "jserror \<Rightarrow> string" where
  \<comment> \<open>\<open>Error.prototype.toString\<close>: the name alone when the message is empty\<close>
  "error_toString e =
     (if error_message e = [] then error_name e
      else error_name e @ '': '' @ error_message e)"

text \<open>
  The values that reach the settings getters and the header builder: \<open>undefined\<close>,
  \<open>null\<close>, strings, and the numbers that \<open>+\<close> produces from \<open>undefined\<close> and
  \<open>null\<close> (\<open>JNum None\<close> is \<open>NaN\<close>).
\<close>

datatype jsval = JUndefined | JNull | JNum "int option" | JStr string

type_synonym jsobject = "(string \<times> jsval) list"

fun defineProperty :: "string \<Rightarrow> 'v \<Rightarrow> (string \<times> 'v) list \<Rightarrow> (string \<times> 'v) list" where
  \<comment> \<open>\<open>Object.defineProperty(obj, name, {value: v, enumerable: true, configurable: true})\<close>:
      a configurable property is redefined in place, a new one comes last\<close>
  "defineProperty name v [] = [(name, v)]"
| "defineProperty name v ((n, w) # ps) =
     (if n = name then (name, v) # ps else (n, w) # defineProperty name v ps)"

definition getProperty :: "jsobject \<Rightarrow> string \<Rightarrow> jsval" where
  "getProperty obj name = (case map_of obj name of None \<Rightarrow> JUndefined | Some v \<Rightarrow> v)"

definition digit :: "nat \<Rightarrow> char" where
  "digit d = char_of (48 + d)"

function String_nat :: "nat \<Rightarrow> string" where
  \<comment> \<open>\<open>String(n)\<close> for a natural number\<close>
  "String_nat n = (if n < 10 then [digit n] else String_nat (n div 10) @ [digit (n mod 10)])"
  by pat_completeness auto
termination
  by (relation "measure id") auto

declare String_nat.simps [simp del]

fun ToString :: "jsval \<Rightarrow> string" where
  "ToString JUndefined = ''undefined''"
| "ToString JNull = ''null''"
| "ToString (JNum None) = ''NaN''"
| "ToString (JNum (Some i)) = (if i < 0 then ''-'' @ String_nat (nat (- i)) else String_nat (nat i))"
| "ToString (JStr s) = s"

fun ToNumber :: "jsval \<Rightarrow> int option" where
  \<comment> \<open>used on the operands of \<open>+\<close> when neither is a string\<close>
  "ToNumber JUndefined = None"
| "ToNumber JNull = Some 0"
| "ToNumber (JNum n) = n"
| "ToNumber (JStr s) = None"

fun js_plus :: "jsval \<Rightarrow> jsval \<Rightarrow> jsval" where
  \<comment> \<open>the operator \<open>+\<close>: concatenation as soon as one operand is a string\<close>
  "js_plus (JStr a) b = JStr (a @ ToString b)"
| "js_plus a (JStr b) = JStr (ToString a @ b)"
| "js_plus a b =
     JNum (case (ToNumber a, ToNumber b) of (Some x, Some y) \<Rightarrow> Some (x + y) | _ \<Rightarrow> None)"

definition loosely_null :: "jsval \<Rightarrow> bool" where
  \<comment> \<open>\<open>v == null\<close>\<close>
  "loosely_null v = (v = JNull \<or> v = JUndefined)"

fun find_from :: "string \<Rightarrow> string \<Rightarrow> nat \<Rightarrow> int" where
  \<comment> \<open>first position, counted from \<open>k\<close>, where \<open>t\<close> starts; \<open>-1\<close> when there is none\<close>
  "find_from [] t k = (if t = [] then int k else - 1)"
| "find_from (c # cs) t k = (if startsWith (c # cs) t then int k else find_from cs t (Suc k))"

definition indexOf :: "string \<Rightarrow> string \<Rightarrow> int \<Rightarrow> int" where
  \<comment> \<open>\<open>s.indexOf(t, fromIndex)\<close>: the start is clamped to \<open>0..length\<close>\<close>
  "indexOf s t fromIndex =
     (let start = nat (max 0 (min fromIndex (int (length s))))
      in find_from (drop start s) t start)"

definition substring :: "string \<Rightarrow> int \<Rightarrow> int \<Rightarrow> string" where
  \<comment> \<open>\<open>s.substring(a, b)\<close>: both ends clamped to \<open>0..length\<close>, swapped when \<open>a > b\<close>\<close>
  "substring s a b =
     (let len = int (length s);
          fa = max 0 (min a len);
          fb = max 0 (min b len);
          lo = nat (min fa fb);
          hi = nat (max fa fb)
      in take (hi - lo) (drop lo s))"

section \<open>Platform functions\<close>

definition hexDigit :: "nat \<Rightarrow> char" where
  "hexDigit n = (if n < 10 then char_of (48 + n) else char_of (55 + n))"

definition percent :: "nat \<Rightarrow> string" where
  "percent n = [CHR ''%'', hexDigit (n div 16), hexDigit (n mod 16)]"

definition isUnreserved :: "char \<Rightarrow> bool" where
  \<comment> \<open>the characters \<open>querystring.escape\<close> leaves alone\<close>
  "isUnreserved c =
     (let n = (of_char c :: nat)
      in (65 \<le> n \<and> n \<le> 90) \<or> (97 \<le> n \<and> n \<le> 122) \<or> (48 \<le> n \<and> n \<le> 57) \<or>
         c \<in> set ''-_.!~*()'' \<or> n = 39)"

definition qs_escape :: "string \<Rightarrow> string" where
  \<comment> \<open>\<open>querystring.escape\<close>: the UTF-8 bytes of any other character, percent-encoded\<close>
  "qs_escape s =
     concat (map (\<lambda>c. let n = (of_char c :: nat)
                       in if isUnreserved c then [c]
                          else if n < 128 then percent n
                          else percent (192 + n div 64) @ percent (128 + n mod 64)) s)"

definition querystring_stringify :: "(string \<times> string) list \<Rightarrow> string" where
  "querystring_stringify obj =
     js_join ''&'' (map (\<lambda>(k, v). qs_escape k @ ''='' @ qs_escape v) obj)"

definition Buffer_byteLength :: "string \<Rightarrow> nat" where
  \<comment> \<open>the length of the UTF-8 encoding\<close>
  "Buffer_byteLength s = sum_list (map (\<lambda>c. if (of_char c :: nat) < 128 then 1 else 2) s)"

record url =
  protocol :: string
  hostname :: string
  port :: string
  pathname :: string
  search :: string

text \<open>
  \<open>JSON.parse\<close>, the \<open>URL\<close> constructor and \<open>process.version\<close> belong to the platform
  and are parameters of the model. \<open>JSON_parse\<close> gives \<open>None\<close> where \<open>JSON.parse\<close>
  throws a \<open>SyntaxError\<close>, and otherwise the parsed object, whose members are strings
  (the settings object that the server embeds); \<open>URL_new\<close> gives \<open>None\<close> where
  \<open>new URL\<close> throws a \<open>TypeError\<close>.
\<close>

record runtime =
  JSON_parse :: "string \<Rightarrow> jsobject option"
  URL_new :: "string \<Rightarrow> url option"
  process_version :: string

definition http2_connect :: "string \<Rightarrow> string \<Rightarrow> string option" where
  \<comment> \<open>\<open>http2.connect(protocol + "//" + hostname)\<close> opens no socket and throws for a
      protocol other than \<open>http:\<close> and \<open>https:\<close>; otherwise the session's authority\<close>
  "http2_connect proto host =
     (if proto = ''http:'' \<or> proto = ''https:'' then Some (proto @ ''//'' @ host) else None)"

section \<open>The client object\<close>

record session =
  priv_baseURL :: url
  priv_authCookies :: "string list option"
  priv_useHTTP2 :: "bool option"
  priv_APISettings :: "jsobject option"

definition WPAPILib :: "runtime \<Rightarrow> string \<Rightarrow> jserror + session" where
  \<comment> \<open>the constructor; the other private fields start \<open>undefined\<close>\<close>
  "WPAPILib rt blogURL =
     (case URL_new rt blogURL of
        None \<Rightarrow> Inl (TypeError ''Invalid URL'')
      | Some u \<Rightarrow> Inr \<lparr>priv_baseURL = u, priv_authCookies = None,
                        priv_useHTTP2 = None, priv_APISettings = None\<rparr>)"

definition version :: string where
  "version = ''v0.0.1''"

definition userAgent :: "runtime \<Rightarrow> string" where
  "userAgent rt = ''WPAPILib/'' @ version @ '' (Node.js/'' @ process_version rt @ '')''"

definition authenticated :: "session \<Rightarrow> bool" where
  "authenticated s =
     (case priv_authCookies s of
        None \<Rightarrow> False
      | Some cs \<Rightarrow> if length cs = 0 then False else True)"

definition authHeader :: "session \<Rightarrow> jsval" where
  "authHeader s =
     (case priv_authCookies s of
        None \<Rightarrow> JNull
      | Some cs \<Rightarrow> if length cs = 0 then JNull else JStr (js_join ''; '' cs))"

definition useHTTP2 :: "session \<Rightarrow> bool \<times> session" where
  \<comment> \<open>the getter stores \<open>false\<close> when the field is still undefined\<close>
  "useHTTP2 s =
     (case priv_useHTTP2 s of
        None \<Rightarrow> (False, s\<lparr>priv_useHTTP2 := Some False\<rparr>)
      | Some b \<Rightarrow> (b, s))"

definition APISettings :: "session \<Rightarrow> jsobject option" where
  \<comment> \<open>\<open>None\<close> is \<open>null\<close>\<close>
  "APISettings s = priv_APISettings s"

definition APIRootURL :: "session \<Rightarrow> jsval" where
  "APIRootURL s = (case APISettings s of None \<Rightarrow> JNull | Some obj \<Rightarrow> getProperty obj ''root'')"

definition APINonce :: "session \<Rightarrow> jsval" where
  "APINonce s = (case APISettings s of None \<Rightarrow> JNull | Some obj \<Rightarrow> getProperty obj ''nonce'')"

definition APIVersionString :: "session \<Rightarrow> jsval" where
  "APIVersionString s =
     (case APISettings s of None \<Rightarrow> JNull | Some obj \<Rightarrow> getProperty obj ''versionString'')"

definition APIGateway :: "session \<Rightarrow> jsval" where
  "APIGateway s =
     (case APISettings s of
        None \<Rightarrow> JStr ''?rest_route/''
      | Some obj \<Rightarrow> getProperty obj ''gateway'')"

section \<open>The header builder\<close>

text \<open>
  Header objects are mutated in place and passed by reference, so they live in a
  store: a reference is an index into the list of all header objects created so far.
\<close>

type_synonym heap = "jsobject list"

definition deref :: "heap \<Rightarrow> nat \<Rightarrow> jsobject" where
  "deref h r = (if r < length h then h ! r else [])"

definition addHeader :: "string \<Rightarrow> jsval \<Rightarrow> nat option \<Rightarrow> heap \<Rightarrow> nat \<times> heap" where
  \<comment> \<open>\<open>headerObj\<close> is \<open>None\<close> for a call without the argument (or with
      \<open>undefined\<close> or \<open>null\<close>): a new object is created\<close>
  "addHeader name v headerObj h =
     (case headerObj of
        None \<Rightarrow> (length h, h @ [defineProperty name v []])
      | Some r \<Rightarrow> (r, h[r := defineProperty name v (deref h r)]))"

section \<open>Exchanges\<close>

record incoming_message =
  statusCode :: nat
  headers :: resp_headers

record request_options =
  opt_hostname :: string
  opt_port :: string
  opt_path :: string
  opt_method :: string
  opt_headers :: jsobject

datatype request_kind =
    Http1 bool request_options  \<comment> \<open>\<open>http.request\<close> (\<open>False\<close>) or \<open>https.request\<close> (\<open>True\<close>)\<close>
  | Http2 string jsobject       \<comment> \<open>a stream of the session to this authority\<close>

record client_request =
  kind :: request_kind
  written :: "string option"
  error_listener :: bool

datatype promise_state = Pending | Resolved | Rejected jserror

text \<open>
  \<open>returnObj\<close>. \<open>incoming\<close> is the state of the response callback: the response
  whose body is being read and the \<open>chunkedData\<close> collected so far (\<open>None\<close> until
  the response has arrived).
\<close>

record exchange =
  request :: "client_request option"
  response :: "incoming_message option"
  data :: "string option"
  promise :: promise_state
  incoming :: "(incoming_message \<times> string) option"

definition resolve :: "promise_state \<Rightarrow> promise_state" where
  \<comment> \<open>a promise settles once\<close>
  "resolve p = (if p = Pending then Resolved else p)"

definition reject :: "jserror \<Rightarrow> promise_state \<Rightarrow> promise_state" where
  "reject e p = (if p = Pending then Rejected e else p)"

text \<open>
  The two transport builders. The platform calls they make (\<open>http.request\<close>,
  \<open>https.request\<close>, \<open>client.request\<close>, \<open>write\<close>, \<open>on\<close>) are taken to accept the
  path, method, body and header values they are given. (Where \<open>http.request\<close> refuses
  them, the executor's promise is rejected, the request stays \<open>null\<close> and
  \<open>buildHTTP1Request\<close> throws the \<open>TypeError\<close> of its unsupported-protocol branch.)
\<close>

definition buildHTTP1Request ::
  "session \<Rightarrow> string \<Rightarrow> string \<Rightarrow> string option \<Rightarrow> nat \<Rightarrow> heap \<Rightarrow> (jserror + exchange) \<times> heap" where
  "buildHTTP1Request s path method dat hdrs h =
     (let h = snd (addHeader ''Host'' (JStr (hostname (priv_baseURL s))) (Some hdrs) h);
          h = snd (addHeader ''Connection'' (JStr ''keep-alive'') (Some hdrs) h);
          options = \<lparr>opt_hostname = hostname (priv_baseURL s), opt_port = port (priv_baseURL s),
                     opt_path = path, opt_method = method, opt_headers = deref h hdrs\<rparr>;
          returnObj = \<lparr>request = None, response = None, data = None, promise = Pending,
                       incoming = None\<rparr>;
          returnObj =
            (if protocol (priv_baseURL s) = ''http:''
             then returnObj\<lparr>request := Some \<lparr>kind = Http1 False options, written = None,
                                               error_listener = False\<rparr>\<rparr>
             else if protocol (priv_baseURL s) = ''https:''
             then returnObj\<lparr>request := Some \<lparr>kind = Http1 True options, written = None,
                                               error_listener = False\<rparr>\<rparr>
             else returnObj\<lparr>promise :=
                    reject (Error (''Unsupported protocol '' @ protocol (priv_baseURL s)))
                      (promise returnObj)\<rparr>)
      in case request returnObj of
           None \<Rightarrow>
             \<comment> \<open>\<open>returnObj.request\<close> is still \<open>null\<close>: \<open>write\<close> or \<open>on\<close> throws\<close>
             (Inl (TypeError (if dat \<noteq> None
                              then ''Cannot read properties of null (reading write)''
                              else ''Cannot read properties of null (reading on)'')), h)
         | Some req \<Rightarrow>
             (let req = (case dat of None \<Rightarrow> req | Some d \<Rightarrow> req\<lparr>written := Some d\<rparr>);
                  req = req\<lparr>error_listener := True\<rparr>
              in (Inr (returnObj\<lparr>request := Some req\<rparr>), h)))"

definition buildHTTP2Request ::
  "session \<Rightarrow> string \<Rightarrow> string \<Rightarrow> string option \<Rightarrow> nat \<Rightarrow> heap \<Rightarrow> exchange \<times> heap" where
  "buildHTTP2Request s path method dat hdrs h =
     (let h = snd (addHeader '':path'' (JStr path) (Some hdrs) h);
          h = snd (addHeader '':method'' (JStr method) (Some hdrs) h);
          returnObj = \<lparr>request = None, response = None, data = None, promise = Pending,
                       incoming = None\<rparr>;
          returnObj =
            (if protocol (priv_baseURL s) \<noteq> ''http:'' \<and> protocol (priv_baseURL s) \<noteq> ''https:''
             then returnObj\<lparr>promise :=
                    reject (Error (''Unsupported protocol '' @ protocol (priv_baseURL s)))
                      (promise returnObj)\<rparr>
             else returnObj)
      in case http2_connect (protocol (priv_baseURL s)) (hostname (priv_baseURL s)) of
           None \<Rightarrow>
             \<comment> \<open>the executor throws; a promise still pending would be rejected with
                 the thrown error\<close>
             (returnObj\<lparr>promise :=
                reject (TypeError ''ERR_HTTP2_UNSUPPORTED_PROTOCOL'') (promise returnObj)\<rparr>, h)
         | Some authority \<Rightarrow>
             (returnObj\<lparr>request := Some \<lparr>kind = Http2 authority (deref h hdrs), written = dat,
                                          error_listener = True\<rparr>\<rparr>, h))"

datatype reqdata = DNull | DString string | DObject "(string \<times> string) list"

definition buildRequest_data :: "reqdata \<Rightarrow> string option" where
  \<comment> \<open>lines 383-390 of \<open>buildRequest\<close>: the body, an object being url-encoded\<close>
  "buildRequest_data dat =
     (case dat of
        DNull \<Rightarrow> None
      | DString d \<Rightarrow> Some d
      | DObject obj \<Rightarrow> Some (querystring_stringify obj))"

definition buildRequest_headers ::
  "runtime \<Rightarrow> session \<Rightarrow> string option \<Rightarrow> bool \<Rightarrow> nat \<times> heap" where
  \<comment> \<open>lines 382-402 of \<open>buildRequest\<close>. The header object is created by the first
      \<open>addHeader\<close> call and is local to the call, so the store starts empty\<close>
  "buildRequest_headers rt s dat useAuth =
     (let (hdrs, h) = addHeader ''Content-Type'' (JStr ''application/x-www-form-urlencoded'') None [];
          h = (case dat of
                 None \<Rightarrow> snd (addHeader ''Content-Length'' (JStr ''0'') (Some hdrs) h)
               | Some d \<Rightarrow> snd (addHeader ''Content-Length''
                                  (JStr (String_nat (Buffer_byteLength d))) (Some hdrs) h));
          h = snd (addHeader ''Accept''
                (JStr ''application/json,text/javascript,text/html,application/xhtml+xml,application/xml, */*'')
                (Some hdrs) h);
          h = snd (addHeader ''Accept-Encoding'' (JStr ''identity'') (Some hdrs) h);
          h = snd (addHeader ''Accept-Language'' (JStr ''en-CA,en-US,en'') (Some hdrs) h);
          h = snd (addHeader ''User-Agent'' (JStr (userAgent rt)) (Some hdrs) h);
          h = (if authenticated s = True \<and> useAuth = True
               then (let h = snd (addHeader ''Cookie'' (authHeader s) (Some hdrs) h)
                     in if \<not> loosely_null (APINonce s)
                        then snd (addHeader ''X-WP-Nonce'' (APINonce s) (Some hdrs) h)
                        else h)
               else snd (addHeader ''Cookie'' (JStr ''humans_21909=1'') (Some hdrs) h))
      in (hdrs, h))"

definition buildRequest_path :: "session \<Rightarrow> string \<Rightarrow> string" where
  \<comment> \<open>lines 403-404 of \<open>buildRequest\<close>\<close>
  "buildRequest_path s path =
     (let fullPath = pathname (priv_baseURL s) @ ''/'' @ path
      in js_join ''/'' (js_split ''//'' fullPath))"

definition buildRequest ::
  "runtime \<Rightarrow> session \<Rightarrow> string \<Rightarrow> reqdata \<Rightarrow> string \<Rightarrow> bool \<Rightarrow> session \<times> (jserror + exchange)" where
  "buildRequest rt s path dat method useAuth =
     (let dat = buildRequest_data dat;
          (hdrs, h) = buildRequest_headers rt s dat useAuth;
          fullPath = buildRequest_path s path;
          (h2, s) = useHTTP2 s
      in if h2 = True
         then (s, Inr (fst (buildHTTP2Request s fullPath method dat hdrs h)))
         else (s, fst (buildHTTP1Request s fullPath method dat hdrs h)))"

text \<open>
  What happens to an exchange after it is built: the events that Node.js delivers
  to the listeners registered by the builders. A request gets one response, so a
  second \<open>OnResponse\<close> is not delivered to any listener; \<open>OnData\<close> and \<open>OnEnd\<close>
  reach the listeners that the response callback registers, hence nobody before the
  response has arrived. A request that is \<open>null\<close> has no listener at all. What a
  listener throws is caught by no one in the client: the exchange stays as it is.
\<close>

datatype event =
    OnResponse incoming_message  \<comment> \<open>the response head has arrived\<close>
  | OnData string                \<comment> \<open>a chunk of the body\<close>
  | OnEnd                        \<comment> \<open>the body is complete\<close>
  | OnError jserror              \<comment> \<open>\<open>error\<close> on the request\<close>

fun is_Http2 :: "request_kind \<Rightarrow> bool" where
  "is_Http2 (Http2 a hs) = True"
| "is_Http2 (Http1 sec opts) = False"

fun error_listener_call :: "request_kind \<Rightarrow> jserror \<Rightarrow> promise_state \<Rightarrow> jserror + promise_state" where
  \<comment> \<open>a call of the listener \<open>error => { reject(new Error(error)); }\<close>: the error it
      throws or the promise it leaves. \<open>buildHTTP2Request\<close> registers the listener inside
      the promise executor (lines 542-544). \<open>buildHTTP1Request\<close> registers it after the
      executor has been closed at line 478 (lines 482-484), where no \<open>reject\<close> is
      bound: reading the name throws\<close>
  "error_listener_call (Http2 authority hs) e p = Inr (reject (Error (error_toString e)) p)"
| "error_listener_call (Http1 sec opts) e p = Inl (ReferenceError ''reject is not defined'')"

fun dispatch :: "event \<Rightarrow> exchange \<Rightarrow> exchange" where
  "dispatch (OnResponse r) x =
     (case (request x, incoming x) of
        (Some req, None) \<Rightarrow>
          if is_Http2 (kind req)
          then x\<lparr>response := Some r, incoming := Some (r, [])\<rparr>
          else x\<lparr>incoming := Some (r, [])\<rparr>
      | _ \<Rightarrow> x)"
| "dispatch (OnData chunk) x =
     (case incoming x of
        Some (r, chunkedData) \<Rightarrow> x\<lparr>incoming := Some (r, chunkedData @ chunk)\<rparr>
      | None \<Rightarrow> x)"
| "dispatch OnEnd x =
     (case (request x, incoming x) of
        (Some req, Some (r, chunkedData)) \<Rightarrow>
          if is_Http2 (kind req)
          then x\<lparr>data := Some chunkedData, promise := resolve (promise x)\<rparr>
          else x\<lparr>response := Some r, data := Some chunkedData,
                 promise := resolve (promise x)\<rparr>
      | _ \<Rightarrow> x)"
| "dispatch (OnError e) x =
     (case request x of
        Some req \<Rightarrow>
          if error_listener req
          then (case error_listener_call (kind req) e (promise x) of
                  Inr p \<Rightarrow> x\<lparr>promise := p\<rparr>
                | Inl thrown \<Rightarrow> x)
          else x
      | None \<Rightarrow> x)"

definition deliver :: "event list \<Rightarrow> exchange \<Rightarrow> exchange" where
  "deliver evs x = foldl (\<lambda>x ev. dispatch ev x) x evs"

text \<open>
  The network's part in one exchange: whether \<open>request.end()\<close> throws, and the
  events that follow. The network is the list of these, one for each exchange in
  the order in which the client starts them; an exchange beyond the list gets no
  event.
\<close>

record exchange_script =
  end_error :: "jserror option"
  events :: "event list"

type_synonym network = "exchange_script list"

definition next_script :: "network \<Rightarrow> exchange_script" where
  "next_script net =
     (case net of [] \<Rightarrow> \<lparr>end_error = None, events = []\<rparr> | sc # rest \<Rightarrow> sc)"

definition request_end :: "exchange \<Rightarrow> exchange_script \<Rightarrow> jserror option" where
  \<comment> \<open>\<open>reqResObj.request.end()\<close>: the error it throws, if any\<close>
  "request_end x sc =
     (case request x of
        None \<Rightarrow> Some (TypeError ''Cannot read properties of null (reading end)'')
      | Some req \<Rightarrow> end_error sc)"

datatype 'a completion =
    Returned 'a       \<comment> \<open>the async function's promise resolves\<close>
  | Thrown jserror    \<comment> \<open>it rejects\<close>
  | Suspended         \<comment> \<open>it waits for a promise that never settles\<close>

definition await :: "exchange \<Rightarrow> exchange_script \<Rightarrow> exchange completion" where
  \<comment> \<open>\<open>await reqResObj.promise\<close>, the events of the exchange being delivered meanwhile.
      Node.js emits nothing on a response after its \<open>end\<close>, so the fields read after
      the await are those of the moment the promise settled\<close>
  "await x sc =
     (let x = deliver (events sc) x
      in case promise x of
           Pending \<Rightarrow> Suspended
         | Rejected e \<Rightarrow> Thrown e
         | Resolved \<Rightarrow> Returned x)"

section \<open>The session manager\<close>

definition getAPISettings ::
  "runtime \<Rightarrow> session \<Rightarrow> network \<Rightarrow> bool \<Rightarrow> session \<times> network \<times> bool completion" where
  "getAPISettings rt s net updateURL =
     (if authenticated s = False
      then (s, net, Thrown (Error ''You must be authenticated (login) before getting API settings.''))
      else
        (let nonceContainerPath = ''wp-admin/post-new.php'';
             nonceSettingsDelimiter = ''var wpApiSettings''
         in case buildRequest rt s nonceContainerPath DNull ''GET'' True of
              (s, Inl e) \<Rightarrow> (s, net, Thrown e)
            | (s, Inr nonceReqRes) \<Rightarrow>
                (case request_end nonceReqRes (next_script net) of
                   Some error \<Rightarrow> (s, tl net, Returned False)
                 | None \<Rightarrow>
                     (case await nonceReqRes (next_script net) of
                        Suspended \<Rightarrow> (s, tl net, Suspended)
                      | Thrown e \<Rightarrow> (s, tl net, Thrown e)
                      | Returned nonceReqRes \<Rightarrow>
                          (case data nonceReqRes of
                             None \<Rightarrow>
                               (s, tl net,
                                Thrown (TypeError ''Cannot read properties of null (reading indexOf)''))
                           | Some d \<Rightarrow>
                               (let settingsIndex = indexOf d nonceSettingsDelimiter 0;
                                    objStartIndex = indexOf d ''{'' settingsIndex;
                                    objEndIndex = indexOf d ''};'' settingsIndex + 1;
                                    wpApiSettingsStr = substring d objStartIndex objEndIndex
                                in case JSON_parse rt wpApiSettingsStr of
                                     None \<Rightarrow>
                                       (s, tl net, Thrown (SyntaxError ''Unexpected token in JSON''))
                                   | Some obj \<Rightarrow>
                                       (let s = s\<lparr>priv_APISettings := Some obj\<rparr>
                                        in if updateURL = True
                                           then (case URL_new rt (ToString (getProperty obj ''root'')) of
                                                   None \<Rightarrow> (s, tl net, Thrown (TypeError ''Invalid URL''))
                                                 | Some u \<Rightarrow>
                                                     (s\<lparr>priv_baseURL := u,
                                                        priv_APISettings :=
                                                          Some (defineProperty ''gateway'' (JStr (search u)) obj)\<rparr>,
                                                      tl net, Returned True))
                                           else (s\<lparr>priv_APISettings :=
                                                     Some (defineProperty ''gateway'' (JStr ''?rest_route/'') obj)\<rparr>,
                                                 tl net, Returned True))))))))"

definition login_attempt ::
  "runtime \<Rightarrow> session \<Rightarrow> network \<Rightarrow> string \<Rightarrow> reqdata \<Rightarrow>
   session \<times> network \<times> (client_request option \<times> incoming_message) completion" where
  \<comment> \<open>lines 181-190 of \<open>login\<close>, which lines 193-202 repeat: build the request, end it
      (whatever \<open>request_end\<close> throws is caught and dropped, so the call leaves no
      trace here), await the exchange, read the response\<close>
  "login_attempt rt s net loginPath loginParams =
     (case buildRequest rt s loginPath loginParams ''POST'' True of
        (s, Inl e) \<Rightarrow> (s, net, Thrown e)
      | (s, Inr reqResObj) \<Rightarrow>
          (case await reqResObj (next_script net) of
             Suspended \<Rightarrow> (s, tl net, Suspended)
           | Thrown e \<Rightarrow> (s, tl net, Thrown e)
           | Returned reqResObj \<Rightarrow>
               (case response reqResObj of
                  None \<Rightarrow>
                    (s, tl net,
                     Thrown (TypeError ''Cannot read properties of null (reading statusCode)''))
                | Some r \<Rightarrow> (s, tl net, Returned (request reqResObj, r)))))"

definition login_exchange ::
  "runtime \<Rightarrow> session \<Rightarrow> network \<Rightarrow> string \<Rightarrow> reqdata \<Rightarrow>
   session \<times> network \<times> (client_request option \<times> incoming_message) completion" where
  \<comment> \<open>lines 181-203 of \<open>login\<close>: the exchange whose response the cookies are read from\<close>
  "login_exchange rt s net loginPath loginParams =
     (case login_attempt rt s net loginPath loginParams of
        (s, net, Returned (req, r)) \<Rightarrow>
          if isHTTP2Upgrade (headers r) = True
          then login_attempt rt (s\<lparr>priv_useHTTP2 := Some True\<rparr>) net loginPath loginParams
          else (s, net, Returned (req, r))
      | failed \<Rightarrow> failed)"

fun authCookies_loop :: "string list \<Rightarrow> string list" where
  \<comment> \<open>the \<open>for\<close> loop of \<open>login\<close> over the cookies still to visit: what it pushes\<close>
  "authCookies_loop [] = []"
| "authCookies_loop (c # cs) =
     (if startsWith c ''wordpress_'' \<or> startsWith c ''wp_''
      then (case js_split '';'' c of p # ps \<Rightarrow> p | [] \<Rightarrow> []) # authCookies_loop cs
      else authCookies_loop cs)"

text \<open>The values held by the fields of the objects that \<open>login\<close> and \<open>callAPI\<close> return.\<close>

datatype field =
    RequestObject "client_request option"
  | ResponseObject "incoming_message option"
  | Number nat
  | Text "string option"

record login_result =
  login_request :: field
  login_response :: field
  login_status :: field
  login_authCookies :: "string list option"
  login_APISettings :: "jsobject option"

record api_result =
  api_request :: field
  api_response :: field
  api_status :: field
  api_data :: field

definition login ::
  "runtime \<Rightarrow> session \<Rightarrow> network \<Rightarrow> string \<Rightarrow> string \<Rightarrow> string \<Rightarrow>
   session \<times> network \<times> login_result completion" where
  "login rt s net loginName loginPassword loginPath =
     (let loginParams = DObject [(''log'', loginName), (''pwd'', loginPassword)]
      in case login_exchange rt s net loginPath loginParams of
           (s, net, Suspended) \<Rightarrow> (s, net, Suspended)
         | (s, net, Thrown e) \<Rightarrow> (s, net, Thrown e)
         | (s, net, Returned (req, r)) \<Rightarrow>
             (case set_cookie (headers r) of
                None \<Rightarrow> (s, net, Thrown (Error ''No cookies received in server response.''))
              | Some cookies \<Rightarrow>
                  \<comment> \<open>the comparison with the empty string uses the array joined by commas\<close>
                  if js_join '','' cookies = []
                  then (s, net, Thrown (Error ''Empty cookies received in server response.''))
                  else
                    (let s = s\<lparr>priv_authCookies := Some (authCookies_loop cookies)\<rparr>
                     in if length (authCookies_loop cookies) = 0
                        then (s, net,
                              Thrown (Error ''Authentication cookies not received in server response.''))
                        else
                          (case getAPISettings rt s net True of
                             (s, net, Suspended) \<Rightarrow> (s, net, Suspended)
                           | (s, net, Thrown e) \<Rightarrow> (s, net, Thrown e)
                           | (s, net, Returned ok) \<Rightarrow>
                               (s, net,
                                Returned \<lparr>login_request = RequestObject req,
                                          login_response = ResponseObject (Some r),
                                          login_status = Number (statusCode r),
                                          login_authCookies = priv_authCookies s,
                                          login_APISettings = APISettings s\<rparr>)))))"

definition callAPI ::
  "runtime \<Rightarrow> session \<Rightarrow> network \<Rightarrow> string \<Rightarrow> reqdata \<Rightarrow> string \<Rightarrow> bool \<Rightarrow>
   session \<times> network \<times> api_result completion" where
  "callAPI rt s net endpoint params method useAuth =
     (if authenticated s = False \<and> useAuth = True
      then \<comment> \<open>\<open>route\<close> is read before its assignment\<close>
           (s, net, Thrown (Error (''API call '' @ [CHR 0x22] @ ''undefined'' @ [CHR 0x22] @
                                   '' requires authentication.'')))
      else
        (let route = ToString (js_plus (js_plus (APIGateway s) (APIVersionString s)) (JStr endpoint));
             route = js_join ''/'' (js_split ''//'' route)
         in case buildRequest rt s route params method useAuth of
              (s, Inl e) \<Rightarrow> (s, net, Thrown e)
            | (s, Inr reqResObj) \<Rightarrow>
                (case await reqResObj (next_script net) of
                   Suspended \<Rightarrow> (s, tl net, Suspended)
                 | Thrown e \<Rightarrow> (s, tl net, Thrown e)
                 | Returned reqResObj \<Rightarrow>
                     (s, tl net,
                      Returned \<lparr>api_request = RequestObject (request reqResObj),
                                api_response = ResponseObject (response reqResObj),
                                api_status = ResponseObject (response reqResObj),
                                api_data = Text (data reqResObj)\<rparr>))))"

section \<open>Calls on a client\<close>

text \<open>
  The operations of a client object that can write its fields, as a caller invokes
  them one after another on one session and one network. (\<open>isHTTP2Upgrade\<close>,
  \<open>addHeader\<close>, the two transport builders and the other getters take the client's
  fields as they are and return them unchanged.)
\<close>

datatype call =
    Login string string string
  | GetAPISettings bool
  | CallAPI string reqdata string bool
  | BuildRequest string reqdata string bool
  | GetUseHTTP2

fun perform :: "runtime \<Rightarrow> call \<Rightarrow> session \<times> network \<Rightarrow> session \<times> network" where
  "perform rt (Login loginName loginPassword loginPath) (s, net) =
     (case login rt s net loginName loginPassword loginPath of (s, net, res) \<Rightarrow> (s, net))"
| "perform rt (GetAPISettings updateURL) (s, net) =
     (case getAPISettings rt s net updateURL of (s, net, res) \<Rightarrow> (s, net))"
| "perform rt (CallAPI endpoint params method useAuth) (s, net) =
     (case callAPI rt s net endpoint params method useAuth of (s, net, res) \<Rightarrow> (s, net))"
| "perform rt (BuildRequest path dat method useAuth) (s, net) =
     (fst (buildRequest rt s path dat method useAuth), net)"
| "perform rt GetUseHTTP2 (s, net) = (snd (useHTTP2 s), net)"

definition run :: "runtime \<Rightarrow> call list \<Rightarrow> session \<times> network \<Rightarrow> session \<times> network" where
  "run rt calls st = foldl (\<lambda>st c. perform rt c st) st calls"

section \<open>Notions of the specification\<close>

definition cookie_name :: "string \<Rightarrow> string" where
  \<comment> \<open>the name of a cookie line: the text before its first \<open>=\<close>\<close>
  "cookie_name c = takeWhile (\<lambda>x. x \<noteq> CHR ''='') c"

definition is_session_cookie :: "string \<Rightarrow> bool" where
  "is_session_cookie c =
     (prefix ''wordpress_'' (cookie_name c) \<or> prefix ''wp_'' (cookie_name c))"

definition name_value_pair :: "string \<Rightarrow> string" where
  \<comment> \<open>the text before the first \<open>;\<close>\<close>
  "name_value_pair c = takeWhile (\<lambda>x. x \<noteq> CHR '';'') c"

definition is_authentication_failure :: "jserror \<Rightarrow> bool" where
  \<comment> \<open>the three errors that \<open>login\<close> raises over the cookies of the response\<close>
  "is_authentication_failure e =
     (e = Error ''No cookies received in server response.'' \<or>
      e = Error ''Empty cookies received in server response.'' \<or>
      e = Error ''Authentication cookies not received in server response.'')"

definition request_headers :: "client_request \<Rightarrow> jsobject" where
  \<comment> \<open>the header collection a request was created with\<close>
  "request_headers req =
     (case kind req of Http1 sec opts \<Rightarrow> opt_headers opts | Http2 authority hs \<Rightarrow> hs)"

definition count_header :: "string \<Rightarrow> jsobject \<Rightarrow> nat" where
  "count_header name obj = length (filter (\<lambda>(n, v). n = name) obj)"

definition request_path :: "client_request \<Rightarrow> jsval" where
  \<comment> \<open>the path a request is sent to: the \<open>path\<close> option, or the \<open>:path\<close> header\<close>
  "request_path req =
     (case kind req of
        Http1 sec opts \<Rightarrow> JStr (opt_path opts)
      | Http2 authority hs \<Rightarrow> getProperty hs '':path'')"

definition started :: "exchange \<Rightarrow> bool" where
  \<comment> \<open>an exchange as a builder returns it when the request could be created: the
      request listens for errors, and nothing has arrived yet\<close>
  "started x =
     ((\<exists>req. request x = Some req \<and> error_listener req = True) \<and> response x = None \<and>
      data x = None \<and> promise x = Pending \<and> incoming x = None)"

definition settings_text :: "string \<Rightarrow> string" where
  \<comment> \<open>the text that \<open>getAPISettings\<close> hands to \<open>JSON.parse\<close>\<close>
  "settings_text d =
     (let settingsIndex = indexOf d ''var wpApiSettings'' 0
      in substring d (indexOf d ''{'' settingsIndex) (indexOf d ''};'' settingsIndex + 1))"

section \<open>A platform to run the model on\<close>

text \<open>
  Instances of the platform parameters, for running the model on concrete inputs.
  \<open>JSON_parse_strings\<close> reads a JSON object whose members are strings without
  Unicode escapes, and \<open>URL_parse_plain\<close> reads \<open>scheme://host[:port][/path][?query]\<close>;
  on these texts they give what \<open>JSON.parse\<close> and \<open>new URL\<close> give. Any other text
  they reject.
\<close>

definition json_ws :: "char \<Rightarrow> bool" where
  "json_ws c = (c = CHR '' '' \<or> c = CHR 0x09 \<or> c = CHR 0x0A \<or> c = CHR 0x0D)"

definition unescape :: "char \<Rightarrow> char option" where
  "unescape c =
     (if c = CHR 0x22 then Some (CHR 0x22)
      else if c = CHR 0x5C then Some (CHR 0x5C)
      else if c = CHR ''/'' then Some (CHR ''/'')
      else if c = CHR ''b'' then Some (CHR 0x08)
      else if c = CHR ''f'' then Some (CHR 0x0C)
      else if c = CHR ''n'' then Some (CHR 0x0A)
      else if c = CHR ''r'' then Some (CHR 0x0D)
      else if c = CHR ''t'' then Some (CHR 0x09)
      else None)"

fun string_body :: "string \<Rightarrow> bool \<Rightarrow> (string \<times> string) option" where
  \<comment> \<open>after the opening quote: the string read and the text after its closing quote;
      the flag says that the last character was a backslash\<close>
  "string_body [] esc = None"
| "string_body (c # cs) True =
     (case unescape c of
        None \<Rightarrow> None
      | Some u \<Rightarrow> map_option (\<lambda>(t, rest). (u # t, rest)) (string_body cs False))"
| "string_body (c # cs) False =
     (if c = CHR 0x22 then Some ([], cs)
      else if c = CHR 0x5C then string_body cs True
      else if (of_char c :: nat) < 32 then None
      else map_option (\<lambda>(t, rest). (c # t, rest)) (string_body cs False))"

definition json_string :: "string \<Rightarrow> (string \<times> string) option" where
  "json_string s = (case s of c # cs \<Rightarrow> if c = CHR 0x22 then string_body cs False else None
                    | [] \<Rightarrow> None)"

fun members :: "nat \<Rightarrow> string \<Rightarrow> jsobject \<Rightarrow> (jsobject \<times> string) option" where
  \<comment> \<open>the members of an object from the first key on; the first argument bounds the
      number of members by the length of the text\<close>
  "members 0 s obj = None"
| "members (Suc n) s obj =
     (case json_string s of
        None \<Rightarrow> None
      | Some (k, s) \<Rightarrow>
          (case dropWhile json_ws s of
             c # s \<Rightarrow>
               if c \<noteq> CHR '':'' then None
               else (case json_string (dropWhile json_ws s) of
                       None \<Rightarrow> None
                     | Some (v, s) \<Rightarrow>
                         (case dropWhile json_ws s of
                            d # s \<Rightarrow>
                              if d = CHR '','' then members n (dropWhile json_ws s)
                                                     (defineProperty k (JStr v) obj)
                              else if d = CHR ''}'' then Some (defineProperty k (JStr v) obj, s)
                              else None
                          | [] \<Rightarrow> None))
           | [] \<Rightarrow> None))"

definition JSON_parse_strings :: "string \<Rightarrow> jsobject option" where
  "JSON_parse_strings s =
     (case dropWhile json_ws s of
        c # s \<Rightarrow>
          if c \<noteq> CHR ''{'' then None
          else (case dropWhile json_ws s of
                  d # t \<Rightarrow>
                    if d = CHR ''}'' then (if dropWhile json_ws t = [] then Some [] else None)
                    else (case members (length s) (d # t) [] of
                            Some (obj, rest) \<Rightarrow>
                              if dropWhile json_ws rest = [] then Some obj else None
                          | None \<Rightarrow> None)
                | [] \<Rightarrow> None)
      | [] \<Rightarrow> None)"

definition lower_letter :: "char \<Rightarrow> bool" where
  "lower_letter c = (97 \<le> (of_char c :: nat) \<and> (of_char c :: nat) \<le> 122)"

definition decimal_digit :: "char \<Rightarrow> bool" where
  "decimal_digit c = (48 \<le> (of_char c :: nat) \<and> (of_char c :: nat) \<le> 57)"

definition plain_host :: "string \<Rightarrow> bool" where
  \<comment> \<open>lower-case letters and single dots between them\<close>
  "plain_host host =
     (host \<noteq> [] \<and> list_all (\<lambda>c. lower_letter c \<or> c = CHR ''.'') host \<and>
      \<not> includes_str host ''..'' \<and> hd host \<noteq> CHR ''.'' \<and> last host \<noteq> CHR ''.'')"

definition plain_port :: "string \<Rightarrow> bool" where
  \<comment> \<open>no port, or four digits without a leading zero (so never a default port)\<close>
  "plain_port prt =
     (prt = [] \<or> (length prt = 4 \<and> list_all decimal_digit prt \<and> hd prt \<noteq> CHR ''0''))"

definition plain_tail :: "string \<Rightarrow> bool" where
  \<comment> \<open>the path and the query: unreserved characters and \<open>/ ? = &\<close>, no dot segment\<close>
  "plain_tail t =
     (list_all (\<lambda>c. lower_letter c \<or> decimal_digit c \<or> c \<in> set ''-._~/?=&'') t \<and>
      \<not> includes_str t ''/.'')"

definition URL_parse_plain :: "string \<Rightarrow> url option" where
  "URL_parse_plain s =
     (let scheme = takeWhile (\<lambda>c. c \<noteq> CHR '':'') s;
          after = drop (length scheme) s;
          rest = drop 3 after;
          authority = takeWhile (\<lambda>c. c \<noteq> CHR ''/'' \<and> c \<noteq> CHR ''?'') rest;
          host = takeWhile (\<lambda>c. c \<noteq> CHR '':'') authority;
          prt = drop (Suc (length host)) authority;
          tail = drop (length authority) rest;
          path = takeWhile (\<lambda>c. c \<noteq> CHR ''?'') tail;
          query = drop (length path) tail
      in if scheme \<in> set [''http'', ''https'', ''ftp'', ''ws'', ''wss''] \<and> take 3 after = ''://'' \<and>
            plain_host host \<and> plain_port prt \<and>
            (if prt = [] then length host = length authority else True) \<and> plain_tail tail
         then Some \<lparr>protocol = scheme @ '':'', hostname = host, port = prt,
                    pathname = (if path = [] then ''/'' else path),
                    search = (if query = ''?'' then [] else query)\<rparr>
         else None)"

definition node :: runtime where
  "node = \<lparr>JSON_parse = JSON_parse_strings, URL_new = URL_parse_plain,
           process_version = ''v18.0.0''\<rparr>"

section \<open>Example inputs\<close>

definition blog :: session where
  \<comment> \<open>a new client for \<open>http://example.com/blog/\<close>\<close>
  "blog = \<lparr>priv_baseURL = \<lparr>protocol = ''http:'', hostname = ''example.com'', port = [],
                              pathname = ''/blog/'', search = []\<rparr>,
           priv_authCookies = None, priv_useHTTP2 = None, priv_APISettings = None\<rparr>"

definition member :: session where
  \<comment> \<open>the same client after an earlier successful login\<close>
  "member = blog\<lparr>priv_authCookies := Some [''wordpress_logged_in=old'']\<rparr>"

definition page :: "(string \<times> string) list \<Rightarrow> string list option \<Rightarrow> string \<Rightarrow> exchange_script" where
  \<comment> \<open>an exchange answered with status 200, these headers and this body\<close>
  "page hs cookies body =
     \<lparr>end_error = None,
      events = [OnResponse \<lparr>statusCode = 200, headers = \<lparr>single = hs, set_cookie = cookies\<rparr>\<rparr>,
                OnData body, OnEnd]\<rparr>"

definition settings_page :: exchange_script where
  "settings_page =
     page [] None
       ''<script>var wpApiSettings = {\"root\":\"https://x/wp-json/\",\"nonce\":\"n1\",\"versionString\":\"wp/v2/\"};</script>''"

definition upgrading :: network where
  \<comment> \<open>a server that answers the first login with an upgrade signal, then accepts the
      login and serves the settings\<close>
  "upgrading =
     [page [(''connection'', ''Upgrade''), (''upgrade'', ''h2c'')] None ''ok'',
      page [] (Some [''wordpress_logged_in=xyz'']) ''ok'',
      settings_page]"

definition ftp_site :: session where
  \<comment> \<open>a new client for \<open>ftp://example.com\<close>\<close>
  "ftp_site = \<lparr>priv_baseURL = \<lparr>protocol = ''ftp:'', hostname = ''example.com'', port = [],
                                  pathname = ''/'', search = []\<rparr>,
               priv_authCookies = None, priv_useHTTP2 = None, priv_APISettings = None\<rparr>"

definition ready :: session where
  \<comment> \<open>the client \<open>member\<close> with settings retrieved\<close>
  "ready = member\<lparr>priv_APISettings :=
             Some [(''root'', JStr ''http://example.com/blog/''), (''nonce'', JStr ''n1''),
                   (''versionString'', JStr ''wp/v2/''), (''gateway'', JStr [])]\<rparr>"


definition refused :: exchange_script where
  \<comment> \<open>an exchange whose connection is refused\<close>
  "refused = \<lparr>end_error = None, events = [OnError (Error ''connect ECONNREFUSED'')]\<rparr>"

section \<open>Properties of the string operations\<close>

lemma startsWith_prefix: "startsWith s p = prefix p s"
  by (induction s p rule: startsWith.induct) auto

lemma includes_sublist: "includes_str s t = sublist t s"
proof (induction s)
  case Nil
  then show ?case by simp
next
  case (Cons c cs)
  then show ?case
    by (cases t) (auto simp: startsWith_prefix sublist_Cons_right)
qed

lemma upgradeTypes_loop_ex:
  "upgradeTypes_loop ts =
     (\<exists>t \<in> set ts. toLowerCase (trim t) = ''h2'' \<or> toLowerCase (trim t) = ''h2c'')"
  by (induction ts) (auto simp: Let_def)

section \<open>The protocol negotiator\<close>

lemma isHTTP2Upgrade_missing:
  "map_of (single hdrs) ''connection'' = None \<or>
   map_of (single hdrs) ''upgrade'' = None \<Longrightarrow> \<not> isHTTP2Upgrade hdrs"
  by (auto simp: isHTTP2Upgrade_def getOwnProperty_def split: option.splits)

lemma isHTTP2Upgrade_empty:
  "map_of (single hdrs) ''connection'' = Some [] \<or>
   map_of (single hdrs) ''upgrade'' = Some [] \<Longrightarrow> \<not> isHTTP2Upgrade hdrs"
  by (auto simp: isHTTP2Upgrade_def getOwnProperty_def split: option.splits)

lemma isHTTP2Upgrade_refines: "isHTTP2Upgrade hdrs = upgrade_signalled hdrs"
  by (auto simp: isHTTP2Upgrade_def upgrade_signalled_def getOwnProperty_def
      includes_sublist upgradeTypes_loop_ex split: option.splits)

lemma isHTTP2Upgrade_example_h2c:
  "isHTTP2Upgrade \<lparr>single = [(''connection'', ''Upgrade''), (''upgrade'', ''h2c'')],
                    set_cookie = None\<rparr>"
  by code_simp

text \<open>
  C1. \<open>isHTTP2Upgrade\<close> is true exactly when the response has a non-empty
  \<open>connection\<close> and a non-empty \<open>upgrade\<close> header, the lower-cased \<open>connection\<close>
  value contains "upgrade", and some comma-separated piece of the \<open>upgrade\<close> value,
  trimmed and lower-cased, is "h2" or "h2c". A missing or empty header gives false.
  \<open>{connection: "Upgrade", upgrade: "h2c"}\<close> gives true; \<open>{connection: "keep-alive"}\<close>
  and \<open>{upgrade: "websocket"}\<close> give false.
\<close>

theorem isHTTP2Upgrade_correct:
  "isHTTP2Upgrade hdrs = upgrade_signalled hdrs \<and>
   (map_of (single hdrs) ''connection'' \<in> {None, Some []} \<or>
    map_of (single hdrs) ''upgrade'' \<in> {None, Some []} \<longrightarrow> \<not> isHTTP2Upgrade hdrs) \<and>
   isHTTP2Upgrade \<lparr>single = [(''connection'', ''Upgrade''), (''upgrade'', ''h2c'')],
                    set_cookie = None\<rparr> \<and>
   \<not> isHTTP2Upgrade \<lparr>single = [(''connection'', ''keep-alive'')], set_cookie = None\<rparr> \<and>
   \<not> isHTTP2Upgrade \<lparr>single = [(''upgrade'', ''websocket'')], set_cookie = None\<rparr>"
proof -
  have absent: "map_of (single hdrs) ''connection'' \<in> {None, Some []} \<or>
      map_of (single hdrs) ''upgrade'' \<in> {None, Some []} \<longrightarrow> \<not> isHTTP2Upgrade hdrs"
    using isHTTP2Upgrade_missing [of hdrs] isHTTP2Upgrade_empty [of hdrs] by auto
  have no_upgrade:
    "\<not> isHTTP2Upgrade \<lparr>single = [(''connection'', ''keep-alive'')], set_cookie = None\<rparr>"
    by (rule isHTTP2Upgrade_missing) simp
  have no_connection:
    "\<not> isHTTP2Upgrade \<lparr>single = [(''upgrade'', ''websocket'')], set_cookie = None\<rparr>"
    by (rule isHTTP2Upgrade_missing) simp
  show ?thesis
    using isHTTP2Upgrade_refines absent isHTTP2Upgrade_example_h2c no_upgrade no_connection
    by blast
qed

theorem isHTTP2Upgrade_correct_witness:
  "map_of (single \<lparr>single = [(''connection'', []), (''upgrade'', ''h2'')],
                    set_cookie = None\<rparr>) ''connection'' \<in> {None, Some []} \<and>
   \<not> isHTTP2Upgrade \<lparr>single = [(''connection'', []), (''upgrade'', ''h2'')],
                      set_cookie = None\<rparr> \<and>
   \<not> upgrade_signalled \<lparr>single = [(''connection'', []), (''upgrade'', ''h2'')],
                         set_cookie = None\<rparr>"
proof -
  let ?h = "\<lparr>single = [(''connection'', []), (''upgrade'', ''h2'')], set_cookie = None\<rparr>"
  have empty: "map_of (single ?h) ''connection'' \<in> {None, Some []}"
    by simp
  from isHTTP2Upgrade_correct [of ?h] empty show ?thesis
    by blast
qed

section \<open>What the operations do to the fields of the client\<close>

lemma useHTTP2_fields:
  "priv_authCookies (snd (useHTTP2 s)) = priv_authCookies s"
  "priv_APISettings (snd (useHTTP2 s)) = priv_APISettings s"
  "priv_baseURL (snd (useHTTP2 s)) = priv_baseURL s"
  by (simp_all add: useHTTP2_def split: option.splits)

lemma useHTTP2_flag:
  "(priv_useHTTP2 (snd (useHTTP2 s)) = Some True) = (priv_useHTTP2 s = Some True)"
  by (auto simp add: useHTTP2_def split: option.splits)

lemma buildRequest_session: "fst (buildRequest rt s path dat method useAuth) = snd (useHTTP2 s)"
  by (simp add: buildRequest_def Let_def split: prod.splits)

lemma authenticated_useHTTP2: "authenticated (snd (useHTTP2 s)) = authenticated s"
  by (simp add: authenticated_def useHTTP2_fields)

lemma getAPISettings_authCookies:
  "priv_authCookies (fst (getAPISettings rt s net u)) = priv_authCookies s"
  using buildRequest_session [of rt s "''wp-admin/post-new.php''" DNull "''GET''" True]
  by (auto simp: getAPISettings_def Let_def useHTTP2_fields
      split: prod.splits sum.splits option.splits completion.splits)

lemma getAPISettings_flag:
  "priv_useHTTP2 (fst (getAPISettings rt s net u)) = Some True \<longleftrightarrow> priv_useHTTP2 s = Some True"
  using buildRequest_session [of rt s "''wp-admin/post-new.php''" DNull "''GET''" True]
  by (auto simp: getAPISettings_def Let_def useHTTP2_flag
      split: prod.splits sum.splits option.splits completion.splits)


lemma login_attempt_session: "fst (login_attempt rt s net p d) = snd (useHTTP2 s)"
  using buildRequest_session [of rt s p d "''POST''" True]
  by (auto simp: login_attempt_def split: prod.splits sum.splits option.splits completion.splits)

lemma login_exchange_cases:
  "login_exchange rt s net p d =
     (case login_attempt rt s net p d of
        (s1, net1, Returned (req, r)) \<Rightarrow>
          if isHTTP2Upgrade (headers r)
          then login_attempt rt (s1\<lparr>priv_useHTTP2 := Some True\<rparr>) net1 p d
          else (s1, net1, Returned (req, r))
      | (s1, net1, Thrown e) \<Rightarrow> (s1, net1, Thrown e)
      | (s1, net1, Suspended) \<Rightarrow> (s1, net1, Suspended))"
  by (simp add: login_exchange_def split: prod.splits completion.splits)

lemma useHTTP2_set_True: "snd (useHTTP2 (s\<lparr>priv_useHTTP2 := Some True\<rparr>)) = s\<lparr>priv_useHTTP2 := Some True\<rparr>"
  by (simp add: useHTTP2_def)

lemma login_exchange_authCookies:
  "priv_authCookies (fst (login_exchange rt s net p d)) = priv_authCookies s"
proof -
  obtain s1 net1 res where a: "login_attempt rt s net p d = (s1, net1, res)"
    by (cases "login_attempt rt s net p d") auto
  then have s1: "s1 = snd (useHTTP2 s)"
    using login_attempt_session [of rt s net p d] by simp
  show ?thesis
    using a s1 login_attempt_session [of rt "s1\<lparr>priv_useHTTP2 := Some True\<rparr>" net1 p d]
    by (auto simp: login_exchange_cases useHTTP2_fields useHTTP2_set_True
        split: completion.splits prod.splits)
qed

lemma login_exchange_flag:
  "priv_useHTTP2 (fst (login_exchange rt s net p d)) = Some True \<longleftrightarrow>
   priv_useHTTP2 s = Some True \<or>
   (\<exists>s1 net1 req r. login_attempt rt s net p d = (s1, net1, Returned (req, r)) \<and>
      isHTTP2Upgrade (headers r))"
proof -
  obtain s1 net1 res where a: "login_attempt rt s net p d = (s1, net1, res)"
    by (cases "login_attempt rt s net p d") auto
  then have s1: "s1 = snd (useHTTP2 s)"
    using login_attempt_session [of rt s net p d] by simp
  show ?thesis
    using a s1 login_attempt_session [of rt "s1\<lparr>priv_useHTTP2 := Some True\<rparr>" net1 p d]
    by (auto simp: login_exchange_cases useHTTP2_flag useHTTP2_set_True
        split: completion.splits prod.splits)
qed

lemma getAPISettings_authCookies_eq:
  "getAPISettings rt s net u = (s', net', res) \<Longrightarrow> priv_authCookies s' = priv_authCookies s"
  using getAPISettings_authCookies [of rt s net u] by simp

lemma login_authCookies:
  "priv_authCookies (fst (login rt s net n pw p)) =
     (case login_exchange rt s net p (DObject [(''log'', n), (''pwd'', pw)]) of
        (s1, net1, Returned (req, r)) \<Rightarrow>
          (case set_cookie (headers r) of
             None \<Rightarrow> priv_authCookies s
           | Some cookies \<Rightarrow>
               if js_join '','' cookies = [] then priv_authCookies s
               else Some (authCookies_loop cookies))
      | _ \<Rightarrow> priv_authCookies s)"
proof -
  let ?d = "DObject [(''log'', n), (''pwd'', pw)]"
  obtain s1 net1 res where a: "login_exchange rt s net p ?d = (s1, net1, res)"
    by (cases "login_exchange rt s net p ?d") auto
  then have s1: "priv_authCookies s1 = priv_authCookies s"
    using login_exchange_authCookies [of rt s net p ?d] by simp
  show ?thesis
    using a s1
    by (auto simp: login_def Let_def dest: getAPISettings_authCookies_eq
        split: completion.splits prod.splits option.splits)
qed

section \<open>The cookies that login keeps\<close>

lemma prefix_takeWhile:
  "\<forall>x \<in> set p. P x \<Longrightarrow> prefix p (takeWhile P s) = prefix p s"
proof (induction p arbitrary: s)
  case Nil
  then show ?case by simp
next
  case (Cons a p)
  then show ?case by (cases s) auto
qed

lemma startsWith_cookie_name:
  "startsWith c ''wordpress_'' = prefix ''wordpress_'' (cookie_name c)"
  "startsWith c ''wp_'' = prefix ''wp_'' (cookie_name c)"
  by (simp_all add: startsWith_prefix cookie_name_def prefix_takeWhile)

lemma split_from_head:
  "\<exists>ps. split_from [d] cur s = (cur @ takeWhile (\<lambda>x. x \<noteq> d) s) # ps"
proof (induction "[d]" cur s rule: split_from.induct)
  case (1 cur s)
  show ?case
  proof (cases s)
    case Nil
    then show ?thesis by (simp add: split_from.simps)
  next
    case (Cons c cs)
    show ?thesis
    proof (cases "c = d")
      case True
      then show ?thesis using Cons by (subst split_from.simps) simp
    next
      case False
      then have "\<exists>ps. split_from [d] (cur @ [hd s]) (tl s) =
          ((cur @ [hd s]) @ takeWhile (\<lambda>x. x \<noteq> d) (tl s)) # ps"
        using 1(2) Cons by simp
      then show ?thesis using Cons False by (subst split_from.simps) simp
    qed
  qed
qed

lemma split_semicolon_head:
  "(case js_split '';'' c of p # ps \<Rightarrow> p | [] \<Rightarrow> []) = name_value_pair c"
  using split_from_head [of "CHR '';''" "[]" c]
  by (auto simp: js_split_def name_value_pair_def)

lemma authCookies_loop_filter:
  "authCookies_loop cookies = map name_value_pair (filter is_session_cookie cookies)"
  by (induction cookies)
     (simp_all add: startsWith_cookie_name is_session_cookie_def split_semicolon_head)

section \<open>Exchanges that start and complete\<close>

lemma buildHTTP1Request_started:
  assumes "protocol (priv_baseURL s) = ''http:'' \<or> protocol (priv_baseURL s) = ''https:''"
  shows "\<exists>x. fst (buildHTTP1Request s path method dat hdrs h) = Inr x \<and> started x"
  using assms
  by (auto simp: buildHTTP1Request_def Let_def started_def split: option.splits)

lemma buildHTTP2Request_started:
  assumes "protocol (priv_baseURL s) = ''http:'' \<or> protocol (priv_baseURL s) = ''https:''"
  shows "started (fst (buildHTTP2Request s path method dat hdrs h))"
  using assms
  by (auto simp: buildHTTP2Request_def http2_connect_def Let_def started_def)

lemma buildRequest_started:
  assumes "protocol (priv_baseURL s) = ''http:'' \<or> protocol (priv_baseURL s) = ''https:''"
  shows "\<exists>x. buildRequest rt s path dat method useAuth = (snd (useHTTP2 s), Inr x) \<and> started x"
proof -
  have p: "protocol (priv_baseURL (snd (useHTTP2 s))) = ''http:'' \<or>
      protocol (priv_baseURL (snd (useHTTP2 s))) = ''https:''"
    using assms by (simp add: useHTTP2_fields)
  show ?thesis
    using buildHTTP1Request_started [OF p] buildHTTP2Request_started [OF p]
    by (auto simp add: buildRequest_def Let_def case_prod_beta)
qed

lemma await_page:
  assumes "started x"
  shows "\<exists>x'. await x (page hs cookies body) = Returned x' \<and> request x' = request x \<and>
           response x' = Some \<lparr>statusCode = 200, headers = \<lparr>single = hs, set_cookie = cookies\<rparr>\<rparr> \<and>
           data x' = Some body"
proof -
  from assms obtain req where "request x = Some req" "promise x = Pending" "incoming x = None"
    by (auto simp: started_def)
  then show ?thesis
    by (cases "is_Http2 (kind req)")
       (simp_all add: await_def page_def deliver_def resolve_def)
qed

lemma login_attempt_page:
  assumes "protocol (priv_baseURL s) = ''http:'' \<or> protocol (priv_baseURL s) = ''https:''"
  shows "\<exists>req. login_attempt rt s (page hs cookies body # net) p d =
           (snd (useHTTP2 s), net,
            Returned (req, \<lparr>statusCode = 200, headers = \<lparr>single = hs, set_cookie = cookies\<rparr>\<rparr>))"
proof -
  from buildRequest_started [OF assms] obtain x where
    x: "buildRequest rt s p d ''POST'' True = (snd (useHTTP2 s), Inr x)" "started x"
    by blast
  from await_page [OF x(2)] obtain x' where
    "await x (page hs cookies body) = Returned x'"
    "response x' = Some \<lparr>statusCode = 200, headers = \<lparr>single = hs, set_cookie = cookies\<rparr>\<rparr>"
    by blast
  then show ?thesis
    using x(1) by (simp add: login_attempt_def next_script_def)
qed

lemma login_exchange_page:
  assumes "protocol (priv_baseURL s) = ''http:'' \<or> protocol (priv_baseURL s) = ''https:''"
    and "\<not> isHTTP2Upgrade \<lparr>single = hs, set_cookie = cookies\<rparr>"
  shows "\<exists>req. login_exchange rt s (page hs cookies body # net) p d =
           (snd (useHTTP2 s), net,
            Returned (req, \<lparr>statusCode = 200, headers = \<lparr>single = hs, set_cookie = cookies\<rparr>\<rparr>))"
  using login_attempt_page [OF assms(1), of rt hs cookies body net p d] assms(2)
  by (auto simp: login_exchange_def)

lemma no_headers_no_upgrade: "\<not> isHTTP2Upgrade \<lparr>single = [], set_cookie = cookies\<rparr>"
  by (simp add: isHTTP2Upgrade_def getOwnProperty_def)

lemma blog_protocol: "protocol (priv_baseURL blog) = ''http:''" "protocol (priv_baseURL member) = ''http:''"
  by (simp_all add: blog_def member_def)

lemma js_join_comma_empty: "js_join '','' cs = [] \<longleftrightarrow> cs = [] \<or> cs = [[]]"
  by (induction "'',''" cs rule: js_join.induct) auto

lemma login_fails_without_cookies:
  assumes "login_exchange rt s net p (DObject [(''log'', n), (''pwd'', pw)]) = (s1, net1, Returned (req, r))"
    and "set_cookie (headers r) = None \<or>
         (\<exists>cookies. set_cookie (headers r) = Some cookies \<and>
            (cookies = [] \<or> cookies = [[]] \<or> filter is_session_cookie cookies = []))"
  shows "\<exists>e. snd (snd (login rt s net n pw p)) = Thrown e \<and> is_authentication_failure e"
  using assms
  by (auto simp: login_def Let_def is_authentication_failure_def authCookies_loop_filter
      split: option.splits)

text \<open>
  On a session authenticated before, a login whose response carries a lone empty
  \<open>set-cookie\<close> line fails and keeps the old cookies, which are not the entries of
  the response with a session-cookie name (there are none).
\<close>

theorem login_empty_cookie_line_counterexample:
  "snd (snd (login node member [page [] (Some [[]]) ''ok''] ''admin'' ''secret'' ''wp-login.php'')) =
     Thrown (Error ''Empty cookies received in server response.'') \<and>
   priv_authCookies (fst (login node member [page [] (Some [[]]) ''ok'']
                            ''admin'' ''secret'' ''wp-login.php'')) =
     Some [''wordpress_logged_in=old''] \<and>
   map name_value_pair (filter is_session_cookie [[]]) = []"
proof -
  let ?d = "DObject [(''log'', ''admin''), (''pwd'', ''secret'')]"
  have http: "protocol (priv_baseURL member) = ''http:'' \<or> protocol (priv_baseURL member) = ''https:''"
    by (simp add: blog_protocol)
  from login_exchange_page [OF http no_headers_no_upgrade] obtain req where
    "login_exchange node member [page [] (Some [[]]) ''ok''] ''wp-login.php'' ?d =
      (snd (useHTTP2 member), [],
       Returned (req, \<lparr>statusCode = 200, headers = \<lparr>single = [], set_cookie = Some [[]]\<rparr>\<rparr>))"
    by blast
  then have run: "login node member [page [] (Some [[]]) ''ok''] ''admin'' ''secret'' ''wp-login.php'' =
      (snd (useHTTP2 member), [], Thrown (Error ''Empty cookies received in server response.''))"
    by (simp add: login_def)
  have kept: "priv_authCookies (snd (useHTTP2 member)) = Some [''wordpress_logged_in=old'']"
    by (simp add: useHTTP2_fields member_def)
  have none: "map name_value_pair (filter is_session_cookie [[]]) = []"
    by (simp add: is_session_cookie_def cookie_name_def)
  show ?thesis
    by (simp only: run kept none fst_conv snd_conv simp_thms)
qed

lemma login_keeps_cookies_without_header:
  assumes "login_exchange rt s net p (DObject [(''log'', n), (''pwd'', pw)]) = (s1, net1, Returned (req, r))"
    and "set_cookie (headers r) = None \<or> set_cookie (headers r) = Some [] \<or>
         set_cookie (headers r) = Some [[]]"
  shows "priv_authCookies (fst (login rt s net n pw p)) = priv_authCookies s"
  using assms by (auto simp: login_authCookies)

text \<open>
  C2 (amended). When the final response of a login carries a \<open>set-cookie\<close> list that
  is not empty (it has an entry, and not just one empty entry), \<open>login\<close> stores as
  \<open>authCookies\<close> exactly the entries whose name starts with \<open>wordpress_\<close> or \<open>wp_\<close>,
  each cut before its first \<open>;\<close>, in the order of the response;
  \<open>["sessionid=abc", "wordpress_logged_in=xyz"]\<close> gives \<open>["wordpress_logged_in=xyz"]\<close>.
  When the header is absent, empty, or has no such entry, \<open>login\<close> fails with an
  authentication error; when it is absent or empty, nothing is stored and
  \<open>authCookies\<close> keeps the value it had before the call.
\<close>

theorem login_stores_session_cookies:
  assumes "login_exchange rt s net loginPath (DObject [(''log'', loginName), (''pwd'', loginPassword)])
           = (s1, net1, Returned (req, r))"
  shows "(\<forall>cookies. set_cookie (headers r) = Some cookies \<and> cookies \<noteq> [] \<and> cookies \<noteq> [[]] \<longrightarrow>
            priv_authCookies (fst (login rt s net loginName loginPassword loginPath)) =
              Some (map name_value_pair (filter is_session_cookie cookies))) \<and>
         (set_cookie (headers r) = Some [''sessionid=abc'', ''wordpress_logged_in=xyz''] \<longrightarrow>
            priv_authCookies (fst (login rt s net loginName loginPassword loginPath)) =
              Some [''wordpress_logged_in=xyz'']) \<and>
         (set_cookie (headers r) = None \<or>
          (\<exists>cookies. set_cookie (headers r) = Some cookies \<and>
             (cookies = [] \<or> cookies = [[]] \<or> filter is_session_cookie cookies = [])) \<longrightarrow>
            (\<exists>e. snd (snd (login rt s net loginName loginPassword loginPath)) = Thrown e \<and>
                 is_authentication_failure e)) \<and>
         (set_cookie (headers r) = None \<or> set_cookie (headers r) = Some [] \<or>
          set_cookie (headers r) = Some [[]] \<longrightarrow>
            priv_authCookies (fst (login rt s net loginName loginPassword loginPath)) =
              priv_authCookies s)"
proof -
  have stored: "priv_authCookies (fst (login rt s net loginName loginPassword loginPath)) =
      Some (map name_value_pair (filter is_session_cookie cookies))"
    if "set_cookie (headers r) = Some cookies" "cookies \<noteq> []" "cookies \<noteq> [[]]" for cookies
    using that assms
    by (simp add: login_authCookies js_join_comma_empty authCookies_loop_filter)
  have example: "map name_value_pair
      (filter is_session_cookie [''sessionid=abc'', ''wordpress_logged_in=xyz'']) =
      [''wordpress_logged_in=xyz'']"
    by (simp add: is_session_cookie_def cookie_name_def name_value_pair_def)
  have first: "\<forall>cookies. set_cookie (headers r) = Some cookies \<and> cookies \<noteq> [] \<and> cookies \<noteq> [[]] \<longrightarrow>
      priv_authCookies (fst (login rt s net loginName loginPassword loginPath)) =
        Some (map name_value_pair (filter is_session_cookie cookies))"
    using stored by blast
  have second: "set_cookie (headers r) = Some [''sessionid=abc'', ''wordpress_logged_in=xyz''] \<longrightarrow>
      priv_authCookies (fst (login rt s net loginName loginPassword loginPath)) =
        Some [''wordpress_logged_in=xyz'']"
    using stored [of "[''sessionid=abc'', ''wordpress_logged_in=xyz'']"] example by simp
  have third: "set_cookie (headers r) = None \<or>
      (\<exists>cookies. set_cookie (headers r) = Some cookies \<and>
         (cookies = [] \<or> cookies = [[]] \<or> filter is_session_cookie cookies = [])) \<longrightarrow>
      (\<exists>e. snd (snd (login rt s net loginName loginPassword loginPath)) = Thrown e \<and>
           is_authentication_failure e)"
    using login_fails_without_cookies [OF assms] by blast
  have fourth: "set_cookie (headers r) = None \<or> set_cookie (headers r) = Some [] \<or>
      set_cookie (headers r) = Some [[]] \<longrightarrow>
      priv_authCookies (fst (login rt s net loginName loginPassword loginPath)) = priv_authCookies s"
    using login_keeps_cookies_without_header [OF assms] by blast
  from first second third fourth show ?thesis
    by (intro conjI)
qed

theorem login_stores_session_cookies_witness:
  "priv_authCookies (fst (login node blog
       [page [] (Some [''sessionid=abc'', ''wordpress_logged_in=xyz'']) ''ok'', settings_page]
       ''admin'' ''secret'' ''wp-login.php'')) = Some [''wordpress_logged_in=xyz''] \<and>
   priv_authCookies (fst (login node blog
       [page [] (Some [''sessionid=abc'', ''wordpress_logged_in=xyz'']) ''ok'', settings_page]
       ''admin'' ''secret'' ''wp-login.php'')) =
     Some (map name_value_pair
             (filter is_session_cookie [''sessionid=abc'', ''wordpress_logged_in=xyz''])) \<and>
   (\<exists>e. snd (snd (login node blog [page [] (Some [''sessionid=abc'']) ''ok'']
       ''admin'' ''secret'' ''wp-login.php'')) = Thrown e \<and> is_authentication_failure e) \<and>
   priv_authCookies (fst (login node member [page [] None ''ok'']
       ''admin'' ''secret'' ''wp-login.php'')) = priv_authCookies member"
proof -
  let ?d = "DObject [(''log'', ''admin''), (''pwd'', ''secret'')]"
  let ?net = "[page [] (Some [''sessionid=abc'', ''wordpress_logged_in=xyz'']) ''ok'', settings_page]"
  let ?net2 = "[page [] (Some [''sessionid=abc'']) ''ok'']"
  have http: "protocol (priv_baseURL blog) = ''http:'' \<or> protocol (priv_baseURL blog) = ''https:''"
    by (simp add: blog_protocol)
  from login_exchange_page [OF http no_headers_no_upgrade] obtain req where
    ex: "login_exchange node blog ?net ''wp-login.php'' ?d =
      (snd (useHTTP2 blog), [settings_page],
       Returned (req, \<lparr>statusCode = 200, headers = \<lparr>single = [],
          set_cookie = Some [''sessionid=abc'', ''wordpress_logged_in=xyz'']\<rparr>\<rparr>))"
    by blast
  from login_exchange_page [OF http no_headers_no_upgrade] obtain req2 where
    ex2: "login_exchange node blog ?net2 ''wp-login.php'' ?d =
      (snd (useHTTP2 blog), [],
       Returned (req2, \<lparr>statusCode = 200, headers = \<lparr>single = [],
          set_cookie = Some [''sessionid=abc'']\<rparr>\<rparr>))"
    by blast
  have kept: "priv_authCookies (fst (login node blog ?net ''admin'' ''secret'' ''wp-login.php'')) =
      Some [''wordpress_logged_in=xyz'']"
    using conjunct1 [OF conjunct2 [OF login_stores_session_cookies [OF ex]]] by simp
  have general: "priv_authCookies (fst (login node blog ?net ''admin'' ''secret'' ''wp-login.php'')) =
      Some (map name_value_pair
              (filter is_session_cookie [''sessionid=abc'', ''wordpress_logged_in=xyz'']))"
    using conjunct1 [OF login_stores_session_cookies [OF ex]]
    by (simp del: filter.simps list.map)
  have failed: "\<exists>e. snd (snd (login node blog ?net2 ''admin'' ''secret'' ''wp-login.php'')) = Thrown e \<and>
      is_authentication_failure e"
    using conjunct2 [OF conjunct2 [OF login_stores_session_cookies [OF ex2]]]
    by (simp add: is_session_cookie_def cookie_name_def)
  have http': "protocol (priv_baseURL member) = ''http:'' \<or>
      protocol (priv_baseURL member) = ''https:''"
    by (simp add: blog_protocol)
  from login_exchange_page [OF http' no_headers_no_upgrade] obtain req3 where
    ex3: "login_exchange node member [page [] None ''ok''] ''wp-login.php'' ?d =
      (snd (useHTTP2 member), [],
       Returned (req3, \<lparr>statusCode = 200, headers = \<lparr>single = [], set_cookie = None\<rparr>\<rparr>))"
    by blast
  have unchanged: "priv_authCookies (fst (login node member [page [] None ''ok'']
      ''admin'' ''secret'' ''wp-login.php'')) = priv_authCookies member"
    using conjunct2 [OF conjunct2 [OF conjunct2 [OF login_stores_session_cookies [OF ex3]]]]
    by simp
  from kept general failed unchanged show ?thesis
    by (intro conjI)
qed

section \<open>Where the errors of a login come from\<close>

lemma error_listener_call_cases:
  "error_listener_call k e p = Inl (ReferenceError ''reject is not defined'') \<or>
   error_listener_call k e p = Inr (reject (Error (error_toString e)) p)"
  by (cases k) simp_all

lemma dispatch_rejected:
  "promise (dispatch ev x) = Rejected e \<Longrightarrow>
   promise x = Rejected e \<or> (\<exists>e0. e = Error (error_toString e0))"
proof (cases ev)
  case (OnError e0)
  assume rejected: "promise (dispatch ev x) = Rejected e"
  show ?thesis
  proof (cases "request x")
    case None
    with rejected OnError show ?thesis by simp
  next
    case (Some req)
    with rejected OnError show ?thesis
      by (cases "kind req") (auto simp: reject_def split: if_splits)
  qed
qed (auto simp: resolve_def split: option.splits prod.splits if_splits)

lemma deliver_rejected:
  "promise (deliver evs x) = Rejected e \<Longrightarrow>
   promise x = Rejected e \<or> (\<exists>e0. e = Error (error_toString e0))"
proof (induction evs arbitrary: x)
  case Nil
  then show ?case by (simp add: deliver_def)
next
  case (Cons ev evs)
  from Cons.prems have "promise (deliver evs (dispatch ev x)) = Rejected e"
    by (simp add: deliver_def)
  from Cons.IH [OF this] show ?case
    using dispatch_rejected [of ev x e] by blast
qed

lemma wrapped_not_authentication_failure:
  "\<not> is_authentication_failure (Error (error_toString e0))"
  by (cases e0) (auto simp: is_authentication_failure_def error_toString_def)

lemma other_not_authentication_failure:
  "\<not> is_authentication_failure (Error (''Unsupported protocol '' @ p))"
  "\<not> is_authentication_failure (TypeError m)"
  "\<not> is_authentication_failure (SyntaxError m)"
  "\<not> is_authentication_failure (Error ''You must be authenticated (login) before getting API settings.'')"
  by (simp_all add: is_authentication_failure_def)

lemma buildHTTP1Request_promise:
  "fst (buildHTTP1Request s path method dat hdrs h) = Inr x \<Longrightarrow> promise x = Pending"
  by (auto simp: buildHTTP1Request_def Let_def reject_def split: option.splits if_splits)

lemma buildHTTP1Request_error:
  "fst (buildHTTP1Request s path method dat hdrs h) = Inl e \<Longrightarrow> \<exists>m. e = TypeError m"
  by (auto simp: buildHTTP1Request_def Let_def split: option.splits if_splits)

lemma buildHTTP2Request_promise:
  "promise (fst (buildHTTP2Request s path method dat hdrs h)) = Pending \<or>
   promise (fst (buildHTTP2Request s path method dat hdrs h)) =
     Rejected (Error (''Unsupported protocol '' @ protocol (priv_baseURL s)))"
  by (auto simp: buildHTTP2Request_def Let_def reject_def http2_connect_def split: option.splits)

lemma buildRequest_error:
  "buildRequest rt s path dat method useAuth = (s', Inl e) \<Longrightarrow> \<exists>m. e = TypeError m"
  using buildHTTP1Request_error
  by (auto simp add: buildRequest_def Let_def case_prod_beta split: if_splits)

lemma buildRequest_promise:
  assumes "buildRequest rt s path dat method useAuth = (s', Inr x)"
  shows "promise x = Pending \<or> (\<exists>p. promise x = Rejected (Error (''Unsupported protocol '' @ p)))"
  using assms buildHTTP1Request_promise buildHTTP2Request_promise
  by (fastforce simp add: buildRequest_def Let_def case_prod_beta split: if_splits)

lemma await_thrown:
  assumes "await x sc = Thrown e"
    and "promise x = Pending \<or> (\<exists>p. promise x = Rejected (Error (''Unsupported protocol '' @ p)))"
  shows "\<not> is_authentication_failure e"
proof -
  from assms(1) have "promise (deliver (events sc) x) = Rejected e"
    by (simp add: await_def Let_def split: promise_state.splits)
  from deliver_rejected [OF this] assms(2) show ?thesis
    using wrapped_not_authentication_failure other_not_authentication_failure(1) by auto
qed

lemma getAPISettings_thrown:
  assumes "getAPISettings rt s net u = (s', net', Thrown e)"
  shows "\<not> is_authentication_failure e"
proof (cases "authenticated s")
  case False
  with assms show ?thesis
    by (auto simp: getAPISettings_def other_not_authentication_failure)
next
  case True
  obtain s1 b where b: "buildRequest rt s ''wp-admin/post-new.php'' DNull ''GET'' True = (s1, b)"
    by (cases "buildRequest rt s ''wp-admin/post-new.php'' DNull ''GET'' True") auto
  show ?thesis
  proof (cases b)
    case (Inl e1)
    with b obtain m where "e1 = TypeError m"
      using buildRequest_error by blast
    with assms True b Inl show ?thesis
      by (auto simp: getAPISettings_def other_not_authentication_failure)
  next
    case (Inr x)
    with b have p: "promise x = Pending \<or> (\<exists>p. promise x = Rejected (Error (''Unsupported protocol '' @ p)))"
      using buildRequest_promise by blast
    from assms True b Inr show ?thesis
      using await_thrown [OF _ p, of "next_script net"]
      by (auto simp: getAPISettings_def Let_def other_not_authentication_failure
          split: option.splits completion.splits if_splits)
  qed
qed

lemma login_attempt_thrown:
  assumes "login_attempt rt s net p d = (s', net', Thrown e)"
  shows "\<not> is_authentication_failure e"
proof -
  obtain s1 b where b: "buildRequest rt s p d ''POST'' True = (s1, b)"
    by (cases "buildRequest rt s p d ''POST'' True") auto
  show ?thesis
  proof (cases b)
    case (Inl e1)
    with b obtain m where "e1 = TypeError m"
      using buildRequest_error by blast
    with assms b Inl show ?thesis
      by (auto simp: login_attempt_def other_not_authentication_failure)
  next
    case (Inr x)
    with b have p: "promise x = Pending \<or> (\<exists>p. promise x = Rejected (Error (''Unsupported protocol '' @ p)))"
      using buildRequest_promise by blast
    from assms b Inr show ?thesis
      using await_thrown [OF _ p, of "next_script net"]
      by (auto simp: login_attempt_def other_not_authentication_failure
          split: option.splits completion.splits)
  qed
qed

lemma login_exchange_thrown:
  assumes "login_exchange rt s net p d = (s', net', Thrown e)"
  shows "\<not> is_authentication_failure e"
  using assms login_attempt_thrown
  by (auto simp: login_exchange_cases split: prod.splits completion.splits if_splits)

section \<open>The session after a failed login\<close>

lemma request_end_page:
  "started x \<Longrightarrow> request_end x (page hs cookies body) = None"
  by (auto simp: started_def request_end_def page_def)

lemma getAPISettings_page:
  assumes "authenticated s"
    and "protocol (priv_baseURL s) = ''http:'' \<or> protocol (priv_baseURL s) = ''https:''"
  shows "getAPISettings rt s (page hs cookies body # net) updateURL =
     (case JSON_parse rt (settings_text body) of
        None \<Rightarrow> (snd (useHTTP2 s), net, Thrown (SyntaxError ''Unexpected token in JSON''))
      | Some obj \<Rightarrow>
          if updateURL
          then (case URL_new rt (ToString (getProperty obj ''root'')) of
                  None \<Rightarrow> ((snd (useHTTP2 s))\<lparr>priv_APISettings := Some obj\<rparr>, net,
                            Thrown (TypeError ''Invalid URL''))
                | Some u \<Rightarrow>
                    ((snd (useHTTP2 s))\<lparr>priv_baseURL := u,
                       priv_APISettings := Some (defineProperty ''gateway'' (JStr (search u)) obj)\<rparr>,
                     net, Returned True))
          else ((snd (useHTTP2 s))\<lparr>priv_APISettings :=
                   Some (defineProperty ''gateway'' (JStr ''?rest_route/'') obj)\<rparr>,
                net, Returned True))"
proof -
  from buildRequest_started [OF assms(2)] obtain x where
    x: "buildRequest rt s ''wp-admin/post-new.php'' DNull ''GET'' True = (snd (useHTTP2 s), Inr x)"
      "started x"
    by blast
  from await_page [OF x(2)] obtain x' where
    x': "await x (page hs cookies body) = Returned x'" "data x' = Some body"
    by blast
  show ?thesis
    using assms(1) x(1) x' request_end_page [OF x(2)]
    by (simp add: getAPISettings_def next_script_def settings_text_def Let_def
        split: option.splits)
qed

lemma no_settings_in_ok: "JSON_parse node (settings_text ''ok'') = None"
  by code_simp

text \<open>
  A failed login leaves a session authenticated that was authenticated before, and
  a login whose settings retrieval fails leaves the new session authenticated.
\<close>

theorem login_failure_counterexample:
  "snd (snd (login node member [page [] None ''ok''] ''admin'' ''secret'' ''wp-login.php'')) =
     Thrown (Error ''No cookies received in server response.'') \<and>
   authenticated (fst (login node member [page [] None ''ok''] ''admin'' ''secret'' ''wp-login.php'')) \<and>
   snd (snd (login node blog [page [] (Some [''wordpress_logged_in=xyz'']) ''ok'', page [] None ''ok'']
               ''admin'' ''secret'' ''wp-login.php'')) =
     Thrown (SyntaxError ''Unexpected token in JSON'') \<and>
   authenticated (fst (login node blog
               [page [] (Some [''wordpress_logged_in=xyz'']) ''ok'', page [] None ''ok'']
               ''admin'' ''secret'' ''wp-login.php''))"
proof -
  let ?d = "DObject [(''log'', ''admin''), (''pwd'', ''secret'')]"
  have http: "protocol (priv_baseURL member) = ''http:'' \<or> protocol (priv_baseURL member) = ''https:''"
    by (simp add: blog_protocol)
  from login_exchange_page [OF http no_headers_no_upgrade] obtain req where
    "login_exchange node member [page [] None ''ok''] ''wp-login.php'' ?d =
      (snd (useHTTP2 member), [],
       Returned (req, \<lparr>statusCode = 200, headers = \<lparr>single = [], set_cookie = None\<rparr>\<rparr>))"
    by blast
  then have first: "login node member [page [] None ''ok''] ''admin'' ''secret'' ''wp-login.php'' =
      (snd (useHTTP2 member), [], Thrown (Error ''No cookies received in server response.''))"
    by (simp add: login_def)
  have kept: "authenticated (snd (useHTTP2 member))"
    by (simp add: authenticated_useHTTP2) (simp add: authenticated_def member_def)
  have http': "protocol (priv_baseURL blog) = ''http:'' \<or> protocol (priv_baseURL blog) = ''https:''"
    by (simp add: blog_protocol)
  let ?s = "(snd (useHTTP2 blog))\<lparr>priv_authCookies := Some [''wordpress_logged_in=xyz'']\<rparr>"
  from login_exchange_page [OF http' no_headers_no_upgrade] obtain req' where
    ex: "login_exchange node blog
        [page [] (Some [''wordpress_logged_in=xyz'']) ''ok'', page [] None ''ok''] ''wp-login.php'' ?d =
      (snd (useHTTP2 blog), [page [] None ''ok''],
       Returned (req', \<lparr>statusCode = 200, headers = \<lparr>single = [],
          set_cookie = Some [''wordpress_logged_in=xyz'']\<rparr>\<rparr>))"
    by blast
  have loop: "authCookies_loop [''wordpress_logged_in=xyz''] = [''wordpress_logged_in=xyz'']"
    by code_simp
  have auth: "authenticated ?s"
    by (simp add: authenticated_def)
  have http'': "protocol (priv_baseURL ?s) = ''http:'' \<or> protocol (priv_baseURL ?s) = ''https:''"
    by (simp add: useHTTP2_fields blog_protocol)
  have settings: "getAPISettings node ?s [page [] None ''ok''] True =
      (snd (useHTTP2 ?s), [], Thrown (SyntaxError ''Unexpected token in JSON''))"
    by (simp add: getAPISettings_page [OF auth http''] no_settings_in_ok)
  have second: "login node blog [page [] (Some [''wordpress_logged_in=xyz'']) ''ok'', page [] None ''ok'']
      ''admin'' ''secret'' ''wp-login.php'' =
      (snd (useHTTP2 ?s), [], Thrown (SyntaxError ''Unexpected token in JSON''))"
    using ex by (simp add: login_def loop settings del: authCookies_loop.simps)
  have still: "authenticated (snd (useHTTP2 ?s))"
    by (simp add: authenticated_useHTTP2 auth)
  show ?thesis
    by (simp only: first second kept still fst_conv snd_conv simp_thms)
qed


lemma authenticated_iff:
  "authenticated s \<longleftrightarrow> (\<exists>cs. priv_authCookies s = Some cs \<and> cs \<noteq> [])"
  by (simp add: authenticated_def split: option.splits)

lemma login_exchange_thrown_session:
  "login_exchange rt s net p d = (s1, net1, res) \<Longrightarrow> priv_authCookies s1 = priv_authCookies s"
  using login_exchange_authCookies [of rt s net p d] by simp

lemma login_thrown_cases:
  assumes "login rt s net n pw p = (s', net', Thrown e)"
  obtains
    net1 where
      "login_exchange rt s net p (DObject [(''log'', n), (''pwd'', pw)]) = (s', net1, Thrown e)"
  | s1 net1 req r where
      "login_exchange rt s net p (DObject [(''log'', n), (''pwd'', pw)]) =
         (s1, net1, Returned (req, r))"
      "s' = s1" "e = Error ''No cookies received in server response.''"
  | s1 net1 req r where
      "login_exchange rt s net p (DObject [(''log'', n), (''pwd'', pw)]) =
         (s1, net1, Returned (req, r))"
      "s' = s1" "e = Error ''Empty cookies received in server response.''"
  | s1 net1 req r where
      "login_exchange rt s net p (DObject [(''log'', n), (''pwd'', pw)]) =
         (s1, net1, Returned (req, r))"
      "s' = s1\<lparr>priv_authCookies := Some []\<rparr>"
      "e = Error ''Authentication cookies not received in server response.''"
  | s1 net1 req r where
      "login_exchange rt s net p (DObject [(''log'', n), (''pwd'', pw)]) =
         (s1, net1, Returned (req, r))"
      "\<not> is_authentication_failure e" "authenticated s'"
proof -
  let ?d = "DObject [(''log'', n), (''pwd'', pw)]"
  obtain s1 net1 res where ex: "login_exchange rt s net p ?d = (s1, net1, res)"
    by (cases "login_exchange rt s net p ?d") auto
  show ?thesis
  proof (cases res)
    case Suspended
    with ex have "login rt s net n pw p = (s1, net1, Suspended)"
      by (simp add: login_def)
    with assms show ?thesis by simp
  next
    case (Thrown e1)
    with ex have "login rt s net n pw p = (s1, net1, Thrown e1)"
      by (simp add: login_def)
    with assms have "s1 = s'" "e1 = e" by simp_all
    with ex Thrown have "login_exchange rt s net p ?d = (s', net1, Thrown e)"
      by simp
    then show ?thesis by (rule that(1))
  next
    case (Returned pair)
    obtain req r where pair: "pair = (req, r)" by (cases pair)
    with ex Returned have ex': "login_exchange rt s net p ?d = (s1, net1, Returned (req, r))"
      by simp
    show ?thesis
    proof (cases "set_cookie (headers r)")
      case None
      with ex' have "login rt s net n pw p =
          (s1, net1, Thrown (Error ''No cookies received in server response.''))"
        by (simp add: login_def)
      with assms have "s' = s1" "e = Error ''No cookies received in server response.''"
        by simp_all
      with ex' show ?thesis by (rule that(2))
    next
      case (Some cookies)
      show ?thesis
      proof (cases "js_join '','' cookies = []")
        case True
        with ex' Some have "login rt s net n pw p =
            (s1, net1, Thrown (Error ''Empty cookies received in server response.''))"
          by (simp add: login_def)
        with assms have "s' = s1" "e = Error ''Empty cookies received in server response.''"
          by simp_all
        with ex' show ?thesis by (rule that(3))
      next
        case False
        show ?thesis
        proof (cases "authCookies_loop cookies = []")
          case True
          with ex' Some False have "login rt s net n pw p =
              (s1\<lparr>priv_authCookies := Some []\<rparr>, net1,
               Thrown (Error ''Authentication cookies not received in server response.''))"
            by (simp add: login_def)
          with assms have "s' = s1\<lparr>priv_authCookies := Some []\<rparr>"
            "e = Error ''Authentication cookies not received in server response.''"
            by simp_all
          with ex' show ?thesis by (rule that(4))
        next
          case loop: False
          let ?s = "s1\<lparr>priv_authCookies := Some (authCookies_loop cookies)\<rparr>"
          obtain s3 net3 res3 where g: "getAPISettings rt ?s net1 True = (s3, net3, res3)"
            by (cases "getAPISettings rt ?s net1 True") auto
          from getAPISettings_authCookies_eq [OF g] loop have auth: "authenticated s3"
            by (simp add: authenticated_iff)
          from ex' Some False loop g have run: "login rt s net n pw p =
              (case res3 of Suspended \<Rightarrow> (s3, net3, Suspended)
               | Thrown e3 \<Rightarrow> (s3, net3, Thrown e3)
               | Returned ok \<Rightarrow>
                   (s3, net3,
                    Returned \<lparr>login_request = RequestObject req,
                              login_response = ResponseObject (Some r),
                              login_status = Number (statusCode r),
                              login_authCookies = priv_authCookies s3,
                              login_APISettings = APISettings s3\<rparr>))"
            by (simp add: login_def Let_def split: completion.splits)
          from run assms have res3: "res3 = Thrown e"
            by (cases res3) simp_all
          with run assms have s3: "s3 = s'"
            by simp
          from g res3 have "\<not> is_authentication_failure e"
            by (simp add: getAPISettings_thrown)
          moreover from auth s3 have "authenticated s'"
            by simp
          ultimately show ?thesis using ex' by (rule that(5) [rotated])
        qed
      qed
    qed
  qed
qed

text \<open>
  C3 (amended). A login call that fails because the response has no matching cookie
  leaves \<open>authenticated\<close> false, for every session, whether authenticated before or not.
  A login call that fails earlier (the login exchange fails, or the response carries
  no or an empty \<open>set-cookie\<close> header, which raises an authentication error) leaves
  \<open>authenticated\<close> as it was before the call: false on a session that was not
  authenticated.
\<close>

theorem login_failure_authenticated:
  assumes "login rt s net loginName loginPassword loginPath = (s', net', Thrown e)"
  shows "(e = Error ''Authentication cookies not received in server response.'' \<longrightarrow>
            \<not> authenticated s') \<and>
         (e = Error ''No cookies received in server response.'' \<or>
          e = Error ''Empty cookies received in server response.'' \<or>
          (\<exists>s1 net1. login_exchange rt s net loginPath
             (DObject [(''log'', loginName), (''pwd'', loginPassword)]) = (s1, net1, Thrown e)) \<longrightarrow>
            authenticated s' = authenticated s \<and> (\<not> authenticated s \<longrightarrow> \<not> authenticated s'))"
proof -
  let ?d = "DObject [(''log'', loginName), (''pwd'', loginPassword)]"
  have same: "authenticated s1 = authenticated s"
    if "login_exchange rt s net loginPath ?d = (s1, net1, res)" for s1 net1 res
    using login_exchange_thrown_session [OF that] by (simp add: authenticated_iff)
  have no_match: "\<not> authenticated s'"
    if e: "e = Error ''Authentication cookies not received in server response.''"
  proof -
    from e have failure: "is_authentication_failure e"
      by (simp add: is_authentication_failure_def)
    from assms show ?thesis
    proof (rule login_thrown_cases)
      fix net1
      assume "login_exchange rt s net loginPath ?d = (s', net1, Thrown e)"
      from login_exchange_thrown [OF this] failure show ?thesis by simp
    next
      fix s1 net1 req r
      assume "e = Error ''No cookies received in server response.''"
      with e show ?thesis by simp
    next
      fix s1 net1 req r
      assume "e = Error ''Empty cookies received in server response.''"
      with e show ?thesis by simp
    next
      fix s1 net1 req r
      assume "s' = s1\<lparr>priv_authCookies := Some []\<rparr>"
      then show ?thesis by (simp add: authenticated_iff)
    next
      fix s1 net1 req r
      assume "\<not> is_authentication_failure e"
      with failure show ?thesis by simp
    qed
  qed
  have earlier: "authenticated s' = authenticated s"
    if e: "e = Error ''No cookies received in server response.'' \<or>
        e = Error ''Empty cookies received in server response.'' \<or>
        (\<exists>s1 net1. login_exchange rt s net loginPath ?d = (s1, net1, Thrown e))"
  proof -
    have not_failure: "\<not> is_authentication_failure e"
      if "login_exchange rt s net loginPath ?d = (s1, net1, Thrown e)" for s1 net1
      using login_exchange_thrown [OF that] .
    from e have before: "e \<noteq> Error ''Authentication cookies not received in server response.''"
    proof (elim disjE exE)
      assume "e = Error ''No cookies received in server response.''"
      then show ?thesis by simp
    next
      assume "e = Error ''Empty cookies received in server response.''"
      then show ?thesis by simp
    next
      fix s1 net1
      assume "login_exchange rt s net loginPath ?d = (s1, net1, Thrown e)"
      from not_failure [OF this] show ?thesis
        by (auto simp: is_authentication_failure_def)
    qed
    from assms show ?thesis
    proof (rule login_thrown_cases)
      fix net1
      assume "login_exchange rt s net loginPath ?d = (s', net1, Thrown e)"
      from same [OF this] show ?thesis .
    next
      fix s1 net1 req r
      assume "login_exchange rt s net loginPath ?d = (s1, net1, Returned (req, r))" "s' = s1"
      with same show ?thesis by blast
    next
      fix s1 net1 req r
      assume "login_exchange rt s net loginPath ?d = (s1, net1, Returned (req, r))" "s' = s1"
      with same show ?thesis by blast
    next
      fix s1 net1 req r
      assume "e = Error ''Authentication cookies not received in server response.''"
      with before show ?thesis by simp
    next
      fix s1 net1 req r
      assume returned: "login_exchange rt s net loginPath ?d = (s1, net1, Returned (req, r))"
        and other: "\<not> is_authentication_failure e"
      from returned have "\<not> (\<exists>s2 net2. login_exchange rt s net loginPath ?d = (s2, net2, Thrown e))"
        by simp
      with e other show ?thesis
        by (simp add: is_authentication_failure_def)
    qed
  qed
  show ?thesis
  proof (intro conjI impI)
    assume "e = Error ''Authentication cookies not received in server response.''"
    then show "\<not> authenticated s'" by (rule no_match)
  next
    assume "e = Error ''No cookies received in server response.'' \<or>
        e = Error ''Empty cookies received in server response.'' \<or>
        (\<exists>s1 net1. login_exchange rt s net loginPath ?d = (s1, net1, Thrown e))"
    then show "authenticated s' = authenticated s" by (rule earlier)
  next
    assume "e = Error ''No cookies received in server response.'' \<or>
        e = Error ''Empty cookies received in server response.'' \<or>
        (\<exists>s1 net1. login_exchange rt s net loginPath ?d = (s1, net1, Thrown e))"
    then have "authenticated s' = authenticated s" by (rule earlier)
    moreover assume "\<not> authenticated s"
    ultimately show "\<not> authenticated s'" by simp
  qed
qed


theorem login_failure_authenticated_witness:
  "login node member [page [] (Some [''sessionid=abc'']) ''ok''] ''admin'' ''secret'' ''wp-login.php'' =
     ((snd (useHTTP2 member))\<lparr>priv_authCookies := Some []\<rparr>, [],
      Thrown (Error ''Authentication cookies not received in server response.'')) \<and>
   authenticated member \<and>
   \<not> authenticated ((snd (useHTTP2 member))\<lparr>priv_authCookies := Some []\<rparr>) \<and>
   login node blog [page [] None ''ok''] ''admin'' ''secret'' ''wp-login.php'' =
     (snd (useHTTP2 blog), [], Thrown (Error ''No cookies received in server response.'')) \<and>
   \<not> authenticated blog \<and>
   authenticated (snd (useHTTP2 blog)) = authenticated blog \<and>
   \<not> authenticated (snd (useHTTP2 blog))"
proof -
  let ?d = "DObject [(''log'', ''admin''), (''pwd'', ''secret'')]"
  have http: "protocol (priv_baseURL member) = ''http:'' \<or> protocol (priv_baseURL member) = ''https:''"
    by (simp add: blog_protocol)
  from login_exchange_page [OF http no_headers_no_upgrade] obtain req where
    "login_exchange node member [page [] (Some [''sessionid=abc'']) ''ok''] ''wp-login.php'' ?d =
      (snd (useHTTP2 member), [],
       Returned (req, \<lparr>statusCode = 200, headers = \<lparr>single = [],
          set_cookie = Some [''sessionid=abc'']\<rparr>\<rparr>))"
    by blast
  then have run1: "login node member [page [] (Some [''sessionid=abc'']) ''ok'']
      ''admin'' ''secret'' ''wp-login.php'' =
      ((snd (useHTTP2 member))\<lparr>priv_authCookies := Some []\<rparr>, [],
       Thrown (Error ''Authentication cookies not received in server response.''))"
    by (simp add: login_def)
  have before1: "authenticated member"
    by (simp add: authenticated_iff member_def)
  from conjunct1 [OF login_failure_authenticated [OF run1]]
  have after1: "\<not> authenticated ((snd (useHTTP2 member))\<lparr>priv_authCookies := Some []\<rparr>)"
    by simp
  have http': "protocol (priv_baseURL blog) = ''http:'' \<or> protocol (priv_baseURL blog) = ''https:''"
    by (simp add: blog_protocol)
  from login_exchange_page [OF http' no_headers_no_upgrade] obtain req' where
    "login_exchange node blog [page [] None ''ok''] ''wp-login.php'' ?d =
      (snd (useHTTP2 blog), [],
       Returned (req', \<lparr>statusCode = 200, headers = \<lparr>single = [], set_cookie = None\<rparr>\<rparr>))"
    by blast
  then have run2: "login node blog [page [] None ''ok''] ''admin'' ''secret'' ''wp-login.php'' =
      (snd (useHTTP2 blog), [], Thrown (Error ''No cookies received in server response.''))"
    by (simp add: login_def)
  have before2: "\<not> authenticated blog"
    by (simp add: authenticated_iff blog_def)
  from conjunct2 [OF login_failure_authenticated [OF run2]]
  have both: "authenticated (snd (useHTTP2 blog)) = authenticated blog \<and>
      (\<not> authenticated blog \<longrightarrow> \<not> authenticated (snd (useHTTP2 blog)))"
    by simp
  then have same2: "authenticated (snd (useHTTP2 blog)) = authenticated blog"
    by (rule conjunct1)
  from both before2 have after2: "\<not> authenticated (snd (useHTTP2 blog))"
    by (elim conjE impE)
  from run1 before1 after1 run2 before2 same2 after2 show ?thesis
    by (intro conjI)
qed

section \<open>The protocol flag\<close>

lemma buildRequest_flag:
  "(priv_useHTTP2 (fst (buildRequest rt s path dat meth useAuth)) = Some True) =
   (priv_useHTTP2 s = Some True)"
  by (simp add: buildRequest_session useHTTP2_flag)

lemma callAPI_flag:
  "(priv_useHTTP2 (fst (callAPI rt s net endpoint params meth useAuth)) = Some True) =
   (priv_useHTTP2 s = Some True)"
proof -
  let ?route = "js_join ''/'' (js_split ''//''
      (ToString (js_plus (js_plus (APIGateway s) (APIVersionString s)) (JStr endpoint))))"
  obtain s1 b where b: "buildRequest rt s ?route params meth useAuth = (s1, b)"
    by (cases "buildRequest rt s ?route params meth useAuth") auto
  with buildRequest_flag [of rt s ?route params meth useAuth]
  have "(priv_useHTTP2 s1 = Some True) = (priv_useHTTP2 s = Some True)"
    by simp
  with b show ?thesis
    by (auto simp: callAPI_def Let_def split: sum.splits completion.splits)
qed

lemma getAPISettings_flag_eq:
  "getAPISettings rt s net u = (s', net', res) \<Longrightarrow>
   (priv_useHTTP2 s' = Some True) = (priv_useHTTP2 s = Some True)"
  using getAPISettings_flag [of rt s net u] by simp

lemma login_exchange_flag_eq:
  "login_exchange rt s net p d = (s1, net1, res) \<Longrightarrow>
   (priv_useHTTP2 s1 = Some True) =
   (priv_useHTTP2 s = Some True \<or>
    (\<exists>s2 net2 req r. login_attempt rt s net p d = (s2, net2, Returned (req, r)) \<and>
       isHTTP2Upgrade (headers r)))"
  using login_exchange_flag [of rt s net p d] by simp

lemma login_flag:
  "(priv_useHTTP2 (fst (login rt s net n pw p)) = Some True) =
   (priv_useHTTP2 s = Some True \<or>
    (\<exists>s2 net2 req r.
       login_attempt rt s net p (DObject [(''log'', n), (''pwd'', pw)]) = (s2, net2, Returned (req, r)) \<and>
       isHTTP2Upgrade (headers r)))"
proof -
  let ?d = "DObject [(''log'', n), (''pwd'', pw)]"
  obtain s1 net1 res where ex: "login_exchange rt s net p ?d = (s1, net1, res)"
    by (cases "login_exchange rt s net p ?d") auto
  note flag = login_exchange_flag_eq [OF ex]
  show ?thesis
  proof (cases res)
    case Suspended
    with ex flag show ?thesis by (simp add: login_def)
  next
    case (Thrown e)
    with ex flag show ?thesis by (simp add: login_def)
  next
    case (Returned pair)
    obtain req r where pair: "pair = (req, r)" by (cases pair)
    show ?thesis
    proof (cases "set_cookie (headers r)")
      case None
      with ex Returned pair flag show ?thesis by (simp add: login_def)
    next
      case (Some cookies)
      let ?s = "s1\<lparr>priv_authCookies := Some (authCookies_loop cookies)\<rparr>"
      obtain s3 net3 res3 where g: "getAPISettings rt ?s net1 True = (s3, net3, res3)"
        by (cases "getAPISettings rt ?s net1 True") auto
      from getAPISettings_flag_eq [OF g]
      have "(priv_useHTTP2 s3 = Some True) = (priv_useHTTP2 s1 = Some True)"
        by simp
      with ex Returned pair Some flag g show ?thesis
        by (cases res3) (simp_all add: login_def Let_def)
    qed
  qed
qed

lemma perform_session:
  "fst (perform rt (Login n pw p) (s, net)) = fst (login rt s net n pw p)"
  "fst (perform rt (GetAPISettings u) (s, net)) = fst (getAPISettings rt s net u)"
  "fst (perform rt (CallAPI endpoint params meth useAuth) (s, net)) =
     fst (callAPI rt s net endpoint params meth useAuth)"
  "fst (perform rt (BuildRequest path dat meth useAuth) (s, net)) =
     fst (buildRequest rt s path dat meth useAuth)"
  "fst (perform rt GetUseHTTP2 (s, net)) = snd (useHTTP2 s)"
  by (simp_all split: prod.splits)

lemma perform_keeps_flag:
  "priv_useHTTP2 s = Some True \<Longrightarrow> priv_useHTTP2 (fst (perform rt c (s, net))) = Some True"
proof (cases c)
  case (Login n pw p)
  assume "priv_useHTTP2 s = Some True"
  with Login login_flag [of rt s net n pw p] show ?thesis
    by (simp add: perform_session del: perform.simps)
next
  case (GetAPISettings u)
  assume "priv_useHTTP2 s = Some True"
  with GetAPISettings getAPISettings_flag [of rt s net u] show ?thesis
    by (simp add: perform_session del: perform.simps)
next
  case (CallAPI endpoint params meth useAuth)
  assume "priv_useHTTP2 s = Some True"
  with CallAPI callAPI_flag [of rt s net endpoint params meth useAuth] show ?thesis
    by (simp add: perform_session del: perform.simps)
next
  case (BuildRequest path dat meth useAuth)
  assume "priv_useHTTP2 s = Some True"
  with BuildRequest show ?thesis
    by (simp add: perform_session buildRequest_flag del: perform.simps)
next
  case GetUseHTTP2
  assume "priv_useHTTP2 s = Some True"
  with GetUseHTTP2 show ?thesis
    by (simp add: perform_session useHTTP2_flag del: perform.simps)
qed

lemma run_keeps_flag:
  "priv_useHTTP2 s = Some True \<Longrightarrow> priv_useHTTP2 (fst (run rt calls (s, net))) = Some True"
proof (induction calls arbitrary: s net)
  case Nil
  then show ?case by (simp add: run_def)
next
  case (Cons c calls)
  obtain s' net' where p: "perform rt c (s, net) = (s', net')"
    by (cases "perform rt c (s, net)") auto
  with perform_keeps_flag [OF Cons.prems, of rt c net] have "priv_useHTTP2 s' = Some True"
    by simp
  from Cons.IH [OF this, of net'] p show ?case
    by (simp add: run_def)
qed

lemma perform_sets_flag:
  assumes "priv_useHTTP2 s \<noteq> Some True"
    and "priv_useHTTP2 (fst (perform rt c (s, net))) = Some True"
  shows "\<exists>n pw p s1 net1 req r. c = Login n pw p \<and>
           login_attempt rt s net p (DObject [(''log'', n), (''pwd'', pw)]) =
             (s1, net1, Returned (req, r)) \<and>
           isHTTP2Upgrade (headers r)"
proof (cases c)
  case (Login n pw p)
  with assms login_flag [of rt s net n pw p] show ?thesis
    by (auto simp add: perform_session simp del: perform.simps)
next
  case (GetAPISettings u)
  with assms getAPISettings_flag [of rt s net u] show ?thesis
    by (auto simp add: perform_session simp del: perform.simps)
next
  case (CallAPI endpoint params meth useAuth)
  with assms callAPI_flag [of rt s net endpoint params meth useAuth] show ?thesis
    by (auto simp add: perform_session simp del: perform.simps)
next
  case (BuildRequest path dat meth useAuth)
  with assms show ?thesis
    by (simp add: perform_session buildRequest_flag del: perform.simps)
next
  case GetUseHTTP2
  with assms show ?thesis
    by (simp add: perform_session useHTTP2_flag del: perform.simps)
qed

lemma new_client_HTTP1: "WPAPILib rt blogURL = Inr s \<Longrightarrow> fst (useHTTP2 s) = False"
  by (auto simp: WPAPILib_def useHTTP2_def split: option.splits)

lemma blog_constructed: "WPAPILib node ''http://example.com/blog/'' = Inr blog"
  by code_simp

text \<open>
  C10. The protocol flag reads false on a newly constructed client; once it is true,
  no sequence of calls on the client makes it false again; and a call makes it true
  only when it is a login whose first exchange completed with a response that
  signals the HTTP/2 upgrade.
\<close>

theorem useHTTP2_sticky:
  "(WPAPILib rt blogURL = Inr s0 \<longrightarrow> fst (useHTTP2 s0) = False) \<and>
   (priv_useHTTP2 s = Some True \<longrightarrow>
      priv_useHTTP2 (fst (run rt calls (s, net))) = Some True \<and>
      fst (useHTTP2 (fst (run rt calls (s, net)))) = True) \<and>
   (priv_useHTTP2 s' \<noteq> Some True \<and> priv_useHTTP2 (fst (perform rt c (s', net'))) = Some True \<longrightarrow>
      (\<exists>n pw p s1 net1 req r. c = Login n pw p \<and>
         login_attempt rt s' net' p (DObject [(''log'', n), (''pwd'', pw)]) =
           (s1, net1, Returned (req, r)) \<and>
         isHTTP2Upgrade (headers r)))"
proof -
  have getter: "priv_useHTTP2 t = Some True \<Longrightarrow> fst (useHTTP2 t) = True" for t
    by (simp add: useHTTP2_def)
  show ?thesis
    using new_client_HTTP1 [of rt blogURL s0] run_keeps_flag [of s rt calls net]
      perform_sets_flag [of s' rt c net'] getter [of "fst (run rt calls (s, net))"]
    by blast
qed

theorem useHTTP2_sticky_witness:
  "WPAPILib node ''http://example.com/blog/'' = Inr blog \<and> fst (useHTTP2 blog) = False \<and>
   priv_useHTTP2 blog \<noteq> Some True \<and>
   priv_useHTTP2 (fst (perform node (Login ''admin'' ''secret'' ''wp-login.php'') (blog, upgrading)))
     = Some True \<and>
   priv_useHTTP2 (fst (run node [CallAPI ''users/me'' DNull ''GET'' True, GetAPISettings True,
                                 Login ''admin'' ''secret'' ''wp-login.php'', GetUseHTTP2]
      (fst (perform node (Login ''admin'' ''secret'' ''wp-login.php'') (blog, upgrading)), [])))
     = Some True"
proof -
  let ?d = "DObject [(''log'', ''admin''), (''pwd'', ''secret'')]"
  let ?login = "Login ''admin'' ''secret'' ''wp-login.php''"
  let ?calls = "[CallAPI ''users/me'' DNull ''GET'' True, GetAPISettings True, ?login, GetUseHTTP2]"
  let ?s = "fst (perform node ?login (blog, upgrading))"
  note sticky = useHTTP2_sticky [of node "''http://example.com/blog/''" blog ?s ?calls "[]"
      blog ?login upgrading]
  have http: "protocol (priv_baseURL blog) = ''http:'' \<or> protocol (priv_baseURL blog) = ''https:''"
    by (simp add: blog_protocol)
  from login_attempt_page [OF http] obtain req where
    "login_attempt node blog upgrading ''wp-login.php'' ?d =
       (snd (useHTTP2 blog), tl upgrading,
        Returned (req, \<lparr>statusCode = 200, headers =
          \<lparr>single = [(''connection'', ''Upgrade''), (''upgrade'', ''h2c'')], set_cookie = None\<rparr>\<rparr>))"
    unfolding upgrading_def list.sel by blast
  with isHTTP2Upgrade_example_h2c
  have upgraded: "priv_useHTTP2 ?s = Some True"
    by (simp add: perform_session login_flag del: perform.simps)
  have before: "priv_useHTTP2 blog \<noteq> Some True"
    by (simp add: blog_def)
  from sticky blog_constructed upgraded before show ?thesis
    by blast
qed

section \<open>Transport errors\<close>

lemma dispatch_request: "request (dispatch ev x) = request x"
proof (cases ev)
  case (OnError e)
  show ?thesis
  proof (cases "request x")
    case None
    with OnError show ?thesis by simp
  next
    case (Some req)
    with OnError show ?thesis
      by (cases "kind req") (simp_all split: sum.splits)
  qed
qed (auto split: option.splits prod.splits)

lemma deliver_request: "request (deliver evs x) = request x"
  by (induction evs arbitrary: x) (simp_all add: deliver_def dispatch_request)

lemma dispatch_http1_promise:
  assumes "request x = Some req" "\<not> is_Http2 (kind req)"
  shows "promise (dispatch ev x) = promise x \<or> promise (dispatch ev x) = resolve (promise x)"
proof (cases ev)
  case (OnError e)
  with assms show ?thesis
    by (cases "kind req") simp_all
qed (use assms in \<open>auto split: option.splits prod.splits\<close>)

lemma deliver_http1_not_rejected:
  assumes "request x = Some req" "\<not> is_Http2 (kind req)"
    and "promise x = Pending \<or> promise x = Resolved"
  shows "promise (deliver evs x) = Pending \<or> promise (deliver evs x) = Resolved"
  using assms
proof (induction evs arbitrary: x)
  case Nil
  then show ?case by (simp add: deliver_def)
next
  case (Cons ev evs)
  from dispatch_http1_promise [OF Cons.prems(1,2), of ev] Cons.prems(3)
  have "promise (dispatch ev x) = Pending \<or> promise (dispatch ev x) = Resolved"
    by (auto simp: resolve_def)
  moreover have "request (dispatch ev x) = Some req"
    using Cons.prems(1) by (simp add: dispatch_request)
  ultimately have "promise (deliver evs (dispatch ev x)) = Pending \<or>
      promise (deliver evs (dispatch ev x)) = Resolved"
    using Cons.IH Cons.prems(2) by blast
  then show ?case by (simp add: deliver_def)
qed

lemma buildHTTP1Request_kind:
  "fst (buildHTTP1Request s path method dat hdrs h) = Inr x \<Longrightarrow>
   \<exists>req. request x = Some req \<and> \<not> is_Http2 (kind req) \<and> error_listener req"
  by (auto simp: buildHTTP1Request_def Let_def split: option.splits if_splits)

lemma buildHTTP1Request_never_rejects:
  assumes "fst (buildHTTP1Request s path method dat hdrs h) = Inr x"
  shows "promise (deliver evs x) = Pending \<or> promise (deliver evs x) = Resolved"
proof -
  from buildHTTP1Request_kind [OF assms] obtain req where
    "request x = Some req" "\<not> is_Http2 (kind req)"
    by blast
  moreover have "promise x = Pending"
    using buildHTTP1Request_promise [OF assms] .
  ultimately show ?thesis
    using deliver_http1_not_rejected by blast
qed

lemma buildHTTP1Request_error_event:
  assumes "fst (buildHTTP1Request s path method dat hdrs h) = Inr x"
  shows "dispatch (OnError e) x = x \<and> await x \<lparr>end_error = ee, events = [OnError e]\<rparr> = Suspended \<and>
         (\<exists>req. request x = Some req \<and>
            error_listener_call (kind req) e (promise x) =
              Inl (ReferenceError ''reject is not defined''))"
proof -
  from buildHTTP1Request_kind [OF assms] obtain req where
    req: "request x = Some req" "\<not> is_Http2 (kind req)" "error_listener req"
    by blast
  then have call: "error_listener_call (kind req) e (promise x) =
      Inl (ReferenceError ''reject is not defined'')"
    by (cases "kind req") simp_all
  with req have same: "dispatch (OnError e) x = x"
    by simp
  with buildHTTP1Request_promise [OF assms]
  have "await x \<lparr>end_error = ee, events = [OnError e]\<rparr> = Suspended"
    by (simp add: await_def deliver_def)
  with same req(1) call show ?thesis
    by blast
qed

lemma buildRequest_HTTP1:
  assumes "priv_useHTTP2 s \<noteq> Some True"
  shows "\<exists>hdrs h. buildRequest rt s path dat method useAuth =
           (snd (useHTTP2 s),
            fst (buildHTTP1Request (snd (useHTTP2 s)) (buildRequest_path s path) method
                   (buildRequest_data dat) hdrs h))"
proof -
  have "fst (useHTTP2 s) = False"
    using assms by (auto simp: useHTTP2_def split: option.splits)
  then show ?thesis
    by (auto simp add: buildRequest_def Let_def case_prod_beta)
qed


text \<open>
  C4. On a client for \<open>http://example.com/blog/\<close>, an exchange built by
  \<open>buildHTTP1Request\<close> whose connection is refused is not rejected: the error listener
  throws a \<open>ReferenceError\<close>, the completion promise stays pending, and the login that
  awaits it never completes. The same error rejects the promise of the exchange that
  \<open>buildHTTP2Request\<close> builds, with the wrapped error.
\<close>

theorem transport_error_never_settles:
  "(case fst (buildHTTP1Request blog ''/blog/wp-login.php'' ''POST''
               (Some ''log=admin&pwd=secret'') 0 [[]]) of
      Inl e \<Rightarrow> False
    | Inr x \<Rightarrow>
        (case request x of
           None \<Rightarrow> False
         | Some req \<Rightarrow>
             error_listener_call (kind req) (Error ''connect ECONNREFUSED'') (promise x) =
               Inl (ReferenceError ''reject is not defined'')) \<and>
        promise (dispatch (OnError (Error ''connect ECONNREFUSED'')) x) = Pending \<and>
        await x refused = Suspended) \<and>
   snd (snd (login node blog [refused] ''admin'' ''secret'' ''wp-login.php'')) = Suspended \<and>
   promise (dispatch (OnError (Error ''connect ECONNREFUSED''))
              (fst (buildHTTP2Request blog ''/blog/wp-login.php'' ''POST''
                      (Some ''log=admin&pwd=secret'') 0 [[]]))) =
     Rejected (Error ''Error: connect ECONNREFUSED'')"
proof -
  let ?e = "Error ''connect ECONNREFUSED''"
  let ?d = "DObject [(''log'', ''admin''), (''pwd'', ''secret'')]"
  have http: "protocol (priv_baseURL blog) = ''http:'' \<or> protocol (priv_baseURL blog) = ''https:''"
    by (simp add: blog_protocol)
  from buildHTTP1Request_started [OF http] obtain x where
    x: "fst (buildHTTP1Request blog ''/blog/wp-login.php'' ''POST''
          (Some ''log=admin&pwd=secret'') 0 [[]]) = Inr x"
    by blast
  from buildHTTP1Request_error_event [OF x, of ?e None] buildHTTP1Request_promise [OF x]
  have first: "case fst (buildHTTP1Request blog ''/blog/wp-login.php'' ''POST''
               (Some ''log=admin&pwd=secret'') 0 [[]]) of
      Inl e \<Rightarrow> False
    | Inr x \<Rightarrow>
        (case request x of
           None \<Rightarrow> False
         | Some req \<Rightarrow>
             error_listener_call (kind req) ?e (promise x) =
               Inl (ReferenceError ''reject is not defined'')) \<and>
        promise (dispatch (OnError ?e) x) = Pending \<and>
        await x refused = Suspended"
    using x by (auto simp: refused_def)
  have flag: "priv_useHTTP2 blog \<noteq> Some True"
    by (simp add: blog_def)
  have http': "protocol (priv_baseURL (snd (useHTTP2 blog))) = ''http:'' \<or>
      protocol (priv_baseURL (snd (useHTTP2 blog))) = ''https:''"
    by (simp add: useHTTP2_fields blog_protocol)
  from buildRequest_HTTP1 [OF flag] obtain hdrs h where
    b: "buildRequest node blog ''wp-login.php'' ?d ''POST'' True =
      (snd (useHTTP2 blog),
       fst (buildHTTP1Request (snd (useHTTP2 blog)) (buildRequest_path blog ''wp-login.php'')
              ''POST'' (buildRequest_data ?d) hdrs h))"
    by blast
  from buildHTTP1Request_started [OF http'] obtain y where
    y: "fst (buildHTTP1Request (snd (useHTTP2 blog)) (buildRequest_path blog ''wp-login.php'')
              ''POST'' (buildRequest_data ?d) hdrs h) = Inr y"
    by blast
  from buildHTTP1Request_error_event [OF y, of ?e None]
  have "await y refused = Suspended"
    by (simp add: refused_def)
  with b y have "login_attempt node blog [refused] ''wp-login.php'' ?d =
      (snd (useHTTP2 blog), [], Suspended)"
    by (simp add: login_attempt_def next_script_def)
  then have second: "snd (snd (login node blog [refused] ''admin'' ''secret'' ''wp-login.php'')) =
      Suspended"
    by (simp add: login_def login_exchange_def)
  have third: "promise (dispatch (OnError ?e)
      (fst (buildHTTP2Request blog ''/blog/wp-login.php'' ''POST''
              (Some ''log=admin&pwd=secret'') 0 [[]]))) = Rejected (Error ''Error: connect ECONNREFUSED'')"
    by (simp add: buildHTTP2Request_def http2_connect_def blog_def Let_def reject_def
        error_toString_def)
  from first second third show ?thesis
    by (intro conjI)
qed

section \<open>Endpoints with another scheme\<close>

lemma buildHTTP1Request_unsupported:
  assumes "protocol (priv_baseURL s) \<noteq> ''http:''" "protocol (priv_baseURL s) \<noteq> ''https:''"
  shows "fst (buildHTTP1Request s path method dat hdrs h) =
           Inl (TypeError (if dat \<noteq> None
                           then ''Cannot read properties of null (reading write)''
                           else ''Cannot read properties of null (reading on)''))"
  using assms by (simp add: buildHTTP1Request_def Let_def)

lemma buildHTTP2Request_unsupported:
  assumes "protocol (priv_baseURL s) \<noteq> ''http:''" "protocol (priv_baseURL s) \<noteq> ''https:''"
  shows "promise (fst (buildHTTP2Request s path method dat hdrs h)) =
           Rejected (Error (''Unsupported protocol '' @ protocol (priv_baseURL s))) \<and>
         request (fst (buildHTTP2Request s path method dat hdrs h)) = None"
  using assms by (simp add: buildHTTP2Request_def http2_connect_def Let_def reject_def)

lemma buildRequest_unsupported:
  assumes "protocol (priv_baseURL s) \<noteq> ''http:''" "protocol (priv_baseURL s) \<noteq> ''https:''"
    and "priv_useHTTP2 s \<noteq> Some True"
  shows "buildRequest rt s path dat method useAuth =
           (snd (useHTTP2 s),
            Inl (TypeError (if buildRequest_data dat \<noteq> None
                            then ''Cannot read properties of null (reading write)''
                            else ''Cannot read properties of null (reading on)'')))"
proof -
  have p: "protocol (priv_baseURL (snd (useHTTP2 s))) \<noteq> ''http:''"
      "protocol (priv_baseURL (snd (useHTTP2 s))) \<noteq> ''https:''"
    using assms by (simp_all add: useHTTP2_fields)
  have "fst (useHTTP2 s) = False"
    using assms(3) by (auto simp: useHTTP2_def split: option.splits)
  then show ?thesis
    by (simp add: buildRequest_def Let_def case_prod_beta buildHTTP1Request_unsupported [OF p])
qed

text \<open>
  C5. On a client for \<open>ftp://example.com\<close>, \<open>buildHTTP1Request\<close> does not return an
  exchange whose promise is rejected: it throws a \<open>TypeError\<close>, and so does \<open>login\<close>.
  \<open>buildHTTP2Request\<close> returns the exchange, rejected with the unsupported-protocol
  error.
\<close>

theorem unsupported_protocol_throws:
  "fst (buildHTTP1Request ftp_site ''/wp-login.php'' ''POST'' (Some ''log=admin&pwd=secret'') 0 [[]]) =
     Inl (TypeError ''Cannot read properties of null (reading write)'') \<and>
   login node ftp_site [] ''admin'' ''secret'' ''wp-login.php'' =
     (snd (useHTTP2 ftp_site), [],
      Thrown (TypeError ''Cannot read properties of null (reading write)'')) \<and>
   promise (fst (buildHTTP2Request ftp_site ''/wp-login.php'' ''POST''
                   (Some ''log=admin&pwd=secret'') 0 [[]])) =
     Rejected (Error ''Unsupported protocol ftp:'')"
proof -
  have p: "protocol (priv_baseURL ftp_site) \<noteq> ''http:''"
      "protocol (priv_baseURL ftp_site) \<noteq> ''https:''"
    by (simp_all add: ftp_site_def)
  have flag: "priv_useHTTP2 ftp_site \<noteq> Some True"
    by (simp add: ftp_site_def)
  have h1: "fst (buildHTTP1Request ftp_site ''/wp-login.php'' ''POST''
      (Some ''log=admin&pwd=secret'') 0 [[]]) =
      Inl (TypeError ''Cannot read properties of null (reading write)'')"
    by (simp add: buildHTTP1Request_unsupported [OF p])
  have "login_attempt node ftp_site [] ''wp-login.php''
      (DObject [(''log'', ''admin''), (''pwd'', ''secret'')]) =
      (snd (useHTTP2 ftp_site), [],
       Thrown (TypeError ''Cannot read properties of null (reading write)''))"
    by (simp add: login_attempt_def buildRequest_unsupported [OF p flag] buildRequest_data_def)
  then have run: "login node ftp_site [] ''admin'' ''secret'' ''wp-login.php'' =
      (snd (useHTTP2 ftp_site), [],
       Thrown (TypeError ''Cannot read properties of null (reading write)''))"
    by (simp add: login_def login_exchange_def)
  have h2: "promise (fst (buildHTTP2Request ftp_site ''/wp-login.php'' ''POST''
      (Some ''log=admin&pwd=secret'') 0 [[]])) = Rejected (Error ''Unsupported protocol ftp:'')"
    using buildHTTP2Request_unsupported [OF p] by (simp add: ftp_site_def)
  from h1 run h2 show ?thesis
    by blast
qed

section \<open>The result of an API call\<close>

lemma callAPI_status:
  "callAPI rt s net endpoint params method useAuth = (s', net', Returned res) \<Longrightarrow>
   api_status res = api_response res"
  by (auto simp: callAPI_def Let_def split: if_splits prod.splits sum.splits completion.splits)

text \<open>
  C7. A \<open>callAPI\<close> exchange answered with status 200 resolves with a result whose
  \<open>status\<close> field holds the response object, not the number 200.
\<close>

theorem callAPI_status_is_response:
  "case snd (snd (callAPI node blog [page [] None ''[]''] ''posts'' DNull ''GET'' False)) of
     Returned res \<Rightarrow>
       api_status res =
         ResponseObject (Some \<lparr>statusCode = 200, headers = \<lparr>single = [], set_cookie = None\<rparr>\<rparr>) \<and>
       api_status res \<noteq> Number 200
   | _ \<Rightarrow> False"
proof -
  let ?route = "js_join ''/'' (js_split ''//''
      (ToString (js_plus (js_plus (APIGateway blog) (APIVersionString blog)) (JStr ''posts''))))"
  have http: "protocol (priv_baseURL blog) = ''http:'' \<or> protocol (priv_baseURL blog) = ''https:''"
    by (simp add: blog_protocol)
  from buildRequest_started [OF http] obtain x where
    x: "buildRequest node blog ?route DNull ''GET'' False = (snd (useHTTP2 blog), Inr x)" "started x"
    by blast
  from await_page [OF x(2)] obtain x' where
    "await x (page [] None ''[]'') = Returned x'"
    "response x' = Some \<lparr>statusCode = 200, headers = \<lparr>single = [], set_cookie = None\<rparr>\<rparr>"
    by blast
  with x(1) show ?thesis
    by (simp add: callAPI_def Let_def next_script_def)
qed

section \<open>Header collections\<close>

lemma key_of_entry: "(a, b) \<in> set obj \<Longrightarrow> a \<in> fst ` set obj"
  by (simp add: rev_image_eqI)

lemma defineProperty_keys_list:
  "map fst (defineProperty n v obj) =
     (if n \<in> set (map fst obj) then map fst obj else map fst obj @ [n])"
  by (induction obj) (auto dest: key_of_entry)

lemma defineProperty_keys: "fst ` set (defineProperty n v obj) = insert n (fst ` set obj)"
proof -
  have "set (map fst (defineProperty n v obj)) = insert n (set (map fst obj))"
    unfolding defineProperty_keys_list by auto
  then show ?thesis by simp
qed

lemma defineProperty_distinct:
  "distinct (map fst obj) \<Longrightarrow> distinct (map fst (defineProperty n v obj))"
proof (induction obj)
  case Nil
  then show ?case by simp
next
  case (Cons p obj)
  then show ?case
    using defineProperty_keys [of n v obj] by (cases p) auto
qed

lemma defineProperty_lookup:
  "map_of (defineProperty n v obj) n = Some v"
  "m \<noteq> n \<Longrightarrow> map_of (defineProperty n v obj) m = map_of obj m"
  by (induction obj) auto

lemma count_header_absent: "n \<notin> fst ` set obj \<Longrightarrow> count_header n obj = 0"
  by (induction obj) (auto simp: count_header_def)

lemma count_header_one:
  "distinct (map fst obj) \<Longrightarrow> n \<in> fst ` set obj \<Longrightarrow> count_header n obj = 1"
proof (induction obj)
  case Nil
  then show ?case by simp
next
  case (Cons p obj)
  show ?case
  proof (cases "fst p = n")
    case True
    with Cons.prems(1) have "n \<notin> fst ` set obj" by auto
    from count_header_absent [OF this] True show ?thesis
      by (cases p) (simp add: count_header_def)
  next
    case False
    with Cons show ?thesis
      by (cases p) (auto simp: count_header_def)
  qed
qed


lemma addHeader_valid:
  "r < length h \<Longrightarrow> addHeader n v (Some r) h = (r, h[r := defineProperty n v (h ! r)])"
  by (simp add: addHeader_def deref_def)

lemma deref_update:
  "r < length h \<Longrightarrow> deref (h[r := obj]) r' = (if r' = r then obj else deref h r')"
  by (simp add: deref_def)

lemma addHeader_same_instance:
  assumes "r < length h" "distinct (map fst (deref h r))"
  shows "fst (addHeader n v (Some r) h) = r \<and>
         length (snd (addHeader n v (Some r) h)) = length h \<and>
         distinct (map fst (deref (snd (addHeader n v (Some r) h)) r)) \<and>
         count_header n (deref (snd (addHeader n v (Some r) h)) r) = 1 \<and>
         map_of (deref (snd (addHeader n v (Some r) h)) r) n = Some v \<and>
         (\<forall>m. m \<noteq> n \<longrightarrow> map_of (deref (snd (addHeader n v (Some r) h)) r) m = map_of (deref h r) m) \<and>
         (\<forall>r'. r' \<noteq> r \<longrightarrow> deref (snd (addHeader n v (Some r) h)) r' = deref h r')"
proof -
  let ?obj = "defineProperty n v (h ! r)"
  have old: "deref h r = h ! r"
    using assms(1) by (simp add: deref_def)
  with assms(2) have d: "distinct (map fst ?obj)"
    by (simp add: defineProperty_distinct)
  have k: "n \<in> fst ` set ?obj"
    by (simp add: defineProperty_keys)
  have c: "count_header n ?obj = 1"
    by (rule count_header_one [OF d k])
  show ?thesis
    using assms(1) d c old
    by (simp add: addHeader_valid deref_update defineProperty_lookup)
qed


lemma addHeader_single:
  "addHeader n v None [] = (0, [defineProperty n v []])"
  "snd (addHeader n v (Some 0) [obj]) = [defineProperty n v obj]"
  by (simp_all add: addHeader_def deref_def)

lemma buildRequest_headers_object:
  "\<exists>obj. buildRequest_headers rt s dat useAuth = (0, [obj]) \<and> distinct (map fst obj) \<and>
     ''Cookie'' \<in> fst ` set obj \<and>
     (authenticated s \<and> useAuth \<and> \<not> loosely_null (APINonce s) \<longrightarrow> ''X-WP-Nonce'' \<in> fst ` set obj)"
  by (cases dat)
     (auto simp add: buildRequest_headers_def addHeader_single Let_def
        defineProperty_distinct defineProperty_keys simp del: defineProperty.simps)


lemma buildHTTP1Request_headers:
  assumes "fst (buildHTTP1Request s path method dat 0 [obj]) = Inr x" "request x = Some req"
  shows "request_headers req =
           defineProperty ''Connection'' (JStr ''keep-alive'')
             (defineProperty ''Host'' (JStr (hostname (priv_baseURL s))) obj) \<and>
         request_path req = JStr path"
  using assms
  by (auto simp add: buildHTTP1Request_def Let_def addHeader_single deref_def
      request_headers_def request_path_def
      simp del: defineProperty.simps split: if_splits option.splits)

lemma buildHTTP2Request_headers:
  assumes "request (fst (buildHTTP2Request s path method dat 0 [obj])) = Some req"
  shows "request_headers req =
           defineProperty '':method'' (JStr method) (defineProperty '':path'' (JStr path) obj) \<and>
         request_path req = JStr path"
  using assms
  by (auto simp add: buildHTTP2Request_def Let_def addHeader_single deref_def getProperty_def
      defineProperty_lookup request_headers_def request_path_def
      simp del: defineProperty.simps split: if_splits option.splits)

lemma buildRequest_request:
  assumes "buildRequest rt s path dat method useAuth = (s', Inr x)" "request x = Some req"
  shows "\<exists>obj. distinct (map fst obj) \<and> ''Cookie'' \<in> fst ` set obj \<and>
           (authenticated s \<and> useAuth \<and> \<not> loosely_null (APINonce s) \<longrightarrow>
              ''X-WP-Nonce'' \<in> fst ` set obj) \<and>
           (request_headers req =
              defineProperty ''Connection'' (JStr ''keep-alive'')
                (defineProperty ''Host'' (JStr (hostname (priv_baseURL s'))) obj) \<or>
            request_headers req =
              defineProperty '':method'' (JStr method)
                (defineProperty '':path'' (JStr (buildRequest_path s path)) obj)) \<and>
           request_path req = JStr (buildRequest_path s path)"
proof -
  from buildRequest_headers_object [of rt s "buildRequest_data dat" useAuth] obtain obj where
    obj: "buildRequest_headers rt s (buildRequest_data dat) useAuth = (0, [obj])"
    and props: "distinct (map fst obj)" "''Cookie'' \<in> fst ` set obj"
      "authenticated s \<and> useAuth \<and> \<not> loosely_null (APINonce s) \<longrightarrow> ''X-WP-Nonce'' \<in> fst ` set obj"
    by blast
  show ?thesis
  proof (cases "fst (useHTTP2 s)")
    case True
    with assms obj have
      "request (fst (buildHTTP2Request s' (buildRequest_path s path) method
         (buildRequest_data dat) 0 [obj])) = Some req"
      by (auto simp add: buildRequest_def Let_def case_prod_beta)
    from buildHTTP2Request_headers [OF this] props show ?thesis
      by blast
  next
    case False
    with assms obj have
      "fst (buildHTTP1Request s' (buildRequest_path s path) method
         (buildRequest_data dat) 0 [obj]) = Inr x"
      by (auto simp add: buildRequest_def Let_def case_prod_beta)
    from buildHTTP1Request_headers [OF this assms(2)] props show ?thesis
      by blast
  qed
qed


text \<open>
  C8. The header collection of every request built by \<open>buildRequest\<close> has exactly one
  \<open>Cookie\<close> header and, when the session is authenticated, \<open>useAuth\<close> is true and a
  nonce is known, exactly one \<open>X-WP-Nonce\<close> header; no name occurs twice. An
  \<open>addHeader\<close> call on an existing collection returns that same collection, where the
  name then occurs once, with the new value, the other names and the other
  collections being as before.
\<close>

theorem buildRequest_one_cookie:
  "(buildRequest rt s path dat method useAuth = (s', Inr x) \<and> request x = Some req \<longrightarrow>
      count_header ''Cookie'' (request_headers req) = 1 \<and>
      (authenticated s \<and> useAuth \<and> \<not> loosely_null (APINonce s) \<longrightarrow>
         count_header ''X-WP-Nonce'' (request_headers req) = 1) \<and>
      distinct (map fst (request_headers req))) \<and>
   (r < length h \<and> distinct (map fst (deref h r)) \<longrightarrow>
      fst (addHeader name v (Some r) h) = r \<and>
      length (snd (addHeader name v (Some r) h)) = length h \<and>
      distinct (map fst (deref (snd (addHeader name v (Some r) h)) r)) \<and>
      count_header name (deref (snd (addHeader name v (Some r) h)) r) = 1 \<and>
      map_of (deref (snd (addHeader name v (Some r) h)) r) name = Some v \<and>
      (\<forall>m. m \<noteq> name \<longrightarrow>
         map_of (deref (snd (addHeader name v (Some r) h)) r) m = map_of (deref h r) m) \<and>
      (\<forall>r'. r' \<noteq> r \<longrightarrow> deref (snd (addHeader name v (Some r) h)) r' = deref h r'))"
proof -
  have built: "count_header ''Cookie'' (request_headers req) = 1 \<and>
      (authenticated s \<and> useAuth \<and> \<not> loosely_null (APINonce s) \<longrightarrow>
         count_header ''X-WP-Nonce'' (request_headers req) = 1) \<and>
      distinct (map fst (request_headers req))"
    if b: "buildRequest rt s path dat method useAuth = (s', Inr x)" and r: "request x = Some req"
  proof -
    from buildRequest_request [OF b r]
    obtain obj where
      obj: "distinct (map fst obj)" "''Cookie'' \<in> fst ` set obj"
        "authenticated s \<and> useAuth \<and> \<not> loosely_null (APINonce s) \<longrightarrow> ''X-WP-Nonce'' \<in> fst ` set obj"
      and hs: "request_headers req =
              defineProperty ''Connection'' (JStr ''keep-alive'')
                (defineProperty ''Host'' (JStr (hostname (priv_baseURL s'))) obj) \<or>
            request_headers req =
              defineProperty '':method'' (JStr method)
                (defineProperty '':path'' (JStr (buildRequest_path s path)) obj)"
      by blast
    from hs have keys: "fst ` set obj \<subseteq> fst ` set (request_headers req)"
      by (elim disjE) (simp_all add: defineProperty_keys subset_insertI2)
    from hs obj(1) have d: "distinct (map fst (request_headers req))"
      by (elim disjE) (simp_all add: defineProperty_distinct)
    from obj(2) keys have c: "''Cookie'' \<in> fst ` set (request_headers req)"
      by (rule subsetD [rotated])
    have one: "count_header ''Cookie'' (request_headers req) = 1"
      by (rule count_header_one [OF d c])
    have nonce: "count_header ''X-WP-Nonce'' (request_headers req) = 1"
      if "authenticated s \<and> useAuth \<and> \<not> loosely_null (APINonce s)"
    proof -
      from that obj(3) have "''X-WP-Nonce'' \<in> fst ` set obj"
        by (rule rev_mp)
      with keys have "''X-WP-Nonce'' \<in> fst ` set (request_headers req)"
        by (rule subsetD)
      then show ?thesis
        by (rule count_header_one [OF d])
    qed
    from one nonce d show ?thesis
      by (intro conjI impI)
  qed
  have overwrite: "r < length h \<and> distinct (map fst (deref h r)) \<longrightarrow>
      fst (addHeader name v (Some r) h) = r \<and>
      length (snd (addHeader name v (Some r) h)) = length h \<and>
      distinct (map fst (deref (snd (addHeader name v (Some r) h)) r)) \<and>
      count_header name (deref (snd (addHeader name v (Some r) h)) r) = 1 \<and>
      map_of (deref (snd (addHeader name v (Some r) h)) r) name = Some v \<and>
      (\<forall>m. m \<noteq> name \<longrightarrow>
         map_of (deref (snd (addHeader name v (Some r) h)) r) m = map_of (deref h r) m) \<and>
      (\<forall>r'. r' \<noteq> r \<longrightarrow> deref (snd (addHeader name v (Some r) h)) r' = deref h r')"
    using addHeader_same_instance [of r h name v] by (intro impI) (elim conjE)
  from built have first: "buildRequest rt s path dat method useAuth = (s', Inr x) \<and>
      request x = Some req \<longrightarrow>
      count_header ''Cookie'' (request_headers req) = 1 \<and>
      (authenticated s \<and> useAuth \<and> \<not> loosely_null (APINonce s) \<longrightarrow>
         count_header ''X-WP-Nonce'' (request_headers req) = 1) \<and>
      distinct (map fst (request_headers req))"
    by (intro impI) (elim conjE)
  from first overwrite show ?thesis
    by (rule conjI)
qed

theorem buildRequest_one_cookie_witness:
  "(case snd (buildRequest node ready ''posts'' DNull ''GET'' True) of
      Inl e \<Rightarrow> False
    | Inr x \<Rightarrow>
        (case request x of
           None \<Rightarrow> False
         | Some req \<Rightarrow>
             count_header ''Cookie'' (request_headers req) = 1 \<and>
             count_header ''X-WP-Nonce'' (request_headers req) = 1)) \<and>
   count_header ''Cookie''
     (deref (snd (addHeader ''Cookie'' (JStr ''b'') (Some 0) [[(''Cookie'', JStr ''a'')]])) 0) = 1 \<and>
   map_of (deref (snd (addHeader ''Cookie'' (JStr ''b'') (Some 0) [[(''Cookie'', JStr ''a'')]])) 0)
     ''Cookie'' = Some (JStr ''b'') \<and>
   map_of (deref (snd (addHeader ''Cookie'' (JStr ''b'') (Some 0) [[(''Cookie'', JStr ''a'')]])) 0)
     ''Host'' = map_of (deref [[(''Cookie'', JStr ''a'')]] 0) ''Host'' \<and>
   deref (snd (addHeader ''Cookie'' (JStr ''b'') (Some 0) [[(''Cookie'', JStr ''a'')]])) 1 =
     deref [[(''Cookie'', JStr ''a'')]] 1"
proof -
  have http: "protocol (priv_baseURL ready) = ''http:'' \<or> protocol (priv_baseURL ready) = ''https:''"
    by (simp add: ready_def blog_protocol)
  from buildRequest_started [OF http] obtain x where
    x: "buildRequest node ready ''posts'' DNull ''GET'' True = (snd (useHTTP2 ready), Inr x)"
    and "started x"
    by blast
  then obtain req where req: "request x = Some req"
    by (auto simp: started_def)
  have auth: "authenticated ready \<and> True \<and> \<not> loosely_null (APINonce ready)"
    by (simp add: authenticated_iff ready_def member_def APINonce_def APISettings_def
        getProperty_def loosely_null_def)
  have obj: "(0::nat) < length [[(''Cookie'', JStr ''a'')]] \<and>
      distinct (map fst (deref [[(''Cookie'', JStr ''a'')]] 0))"
    by (simp add: deref_def)
  note inst = buildRequest_one_cookie [of node ready "''posts''" DNull "''GET''" True
      "snd (useHTTP2 ready)" x req 0 "[[(''Cookie'', JStr ''a'')]]" "''Cookie''" "JStr ''b''"]
  from inst x req auth have built: "count_header ''Cookie'' (request_headers req) = 1 \<and>
      count_header ''X-WP-Nonce'' (request_headers req) = 1"
    by blast
  note overwritten = mp [OF conjunct2 [OF inst] obj]
  from overwritten have once: "count_header ''Cookie''
      (deref (snd (addHeader ''Cookie'' (JStr ''b'') (Some 0) [[(''Cookie'', JStr ''a'')]])) 0) = 1"
    by (elim conjE)
  from overwritten have latest: "map_of
      (deref (snd (addHeader ''Cookie'' (JStr ''b'') (Some 0) [[(''Cookie'', JStr ''a'')]])) 0)
      ''Cookie'' = Some (JStr ''b'')"
    by (elim conjE)
  from overwritten have names: "\<forall>m. m \<noteq> ''Cookie'' \<longrightarrow> map_of
      (deref (snd (addHeader ''Cookie'' (JStr ''b'') (Some 0) [[(''Cookie'', JStr ''a'')]])) 0) m =
      map_of (deref [[(''Cookie'', JStr ''a'')]] 0) m"
    by (elim conjE)
  from overwritten have refs: "\<forall>r'. r' \<noteq> 0 \<longrightarrow> deref
      (snd (addHeader ''Cookie'' (JStr ''b'') (Some 0) [[(''Cookie'', JStr ''a'')]])) r' =
      deref [[(''Cookie'', JStr ''a'')]] r'"
    by (elim conjE)
  from names have name: "map_of
      (deref (snd (addHeader ''Cookie'' (JStr ''b'') (Some 0) [[(''Cookie'', JStr ''a'')]])) 0)
      ''Host'' = map_of (deref [[(''Cookie'', JStr ''a'')]] 0) ''Host''"
    by simp
  from refs have ref: "deref
      (snd (addHeader ''Cookie'' (JStr ''b'') (Some 0) [[(''Cookie'', JStr ''a'')]])) 1 =
      deref [[(''Cookie'', JStr ''a'')]] 1"
    by simp
  from x req built have first: "case snd (buildRequest node ready ''posts'' DNull ''GET'' True) of
      Inl e \<Rightarrow> False
    | Inr x \<Rightarrow>
        (case request x of
           None \<Rightarrow> False
         | Some req \<Rightarrow>
             count_header ''Cookie'' (request_headers req) = 1 \<and>
             count_header ''X-WP-Nonce'' (request_headers req) = 1)"
    by simp
  from first once latest name ref show ?thesis
    by (intro conjI)
qed

section \<open>Joining paths\<close>

lemma blog_join: "buildRequest_path blog ''/wp-json/users'' = ''/blog//wp-json/users''"
  by code_simp

text \<open>
  C9. With the base path \<open>/blog/\<close> and the given path \<open>/wp-json/users\<close>, the path of the
  request that \<open>buildRequest\<close> builds is \<open>/blog//wp-json/users\<close>: one pass over
  \<open>/blog///wp-json/users\<close> replaces the first two separators and leaves two. The same
  pass in \<open>callAPI\<close> turns \<open>wp/v2///users/me\<close> into \<open>wp/v2//users/me\<close>.
\<close>

theorem path_join_keeps_double_slash:
  "buildRequest_path blog ''/wp-json/users'' = ''/blog//wp-json/users'' \<and>
   (case snd (buildRequest node blog ''/wp-json/users'' DNull ''GET'' True) of
      Inl e \<Rightarrow> False
    | Inr x \<Rightarrow> map_option request_path (request x) = Some (JStr ''/blog//wp-json/users'')) \<and>
   js_join ''/'' (js_split ''//'' ''wp/v2///users/me'') = ''wp/v2//users/me''"
proof -
  have http: "protocol (priv_baseURL blog) = ''http:'' \<or> protocol (priv_baseURL blog) = ''https:''"
    by (simp add: blog_protocol)
  from buildRequest_started [OF http] obtain x where
    x: "buildRequest node blog ''/wp-json/users'' DNull ''GET'' True = (snd (useHTTP2 blog), Inr x)"
    and "started x"
    by blast
  then obtain req where req: "request x = Some req"
    by (auto simp: started_def)
  from buildRequest_request [OF x req]
  have "request_path req = JStr (buildRequest_path blog ''/wp-json/users'')"
    by blast
  with x req have built: "case snd (buildRequest node blog ''/wp-json/users'' DNull ''GET'' True) of
      Inl e \<Rightarrow> False
    | Inr x \<Rightarrow> map_option request_path (request x) = Some (JStr ''/blog//wp-json/users'')"
    by (simp add: blog_join)
  have route: "js_join ''/'' (js_split ''//'' ''wp/v2///users/me'') = ''wp/v2//users/me''"
    by code_simp
  from blog_join built route show ?thesis
    by (intro conjI)
qed

section \<open>Retrieving the settings\<close>













end
